theory Spec2Isabelle
  imports Complex_Main
begin

section \<open>Python values and errors\<close>

text \<open>
  The elements of \<^verbatim>\<open>compas_model\<close> are Python objects whose methods mutate the
  object and may raise.  A method is modelled as a function from the object's state to
  either the exception raised or the returned value together with the new state.
  Python floats are idealised as real numbers.
\<close>

datatype py_error =
    ValueError string
  | TypeError string
  | AttributeError string
  | NotImplementedError
  | ZeroDivisionError
  | IndexError
  | RecursionError

fun is_TypeError :: "py_error \<Rightarrow> bool" where
  "is_TypeError (TypeError m) = True"
| "is_TypeError e = False"

fun is_ValueError :: "py_error \<Rightarrow> bool" where
  "is_ValueError (ValueError m) = True"
| "is_ValueError e = False"

text \<open>Reading an attribute that holds \<^verbatim>\<open>None\<close> (or is missing) and using it as an object.\<close>

definition attr :: "string \<Rightarrow> 'a option \<Rightarrow> py_error + 'a" where
  "attr nm v = (case v of None \<Rightarrow> Inl (AttributeError nm) | Some x \<Rightarrow> Inr x)"

text \<open>
  A call \<^verbatim>\<open>f(k1=v1, ..., **kwargs)\<close> of a function whose signature has the keyword
  parameters \<open>params\<close> and no \<^verbatim>\<open>**kwargs\<close> of its own: a key of \<^verbatim>\<open>kwargs\<close> that repeats an
  explicit keyword is a TypeError, and so is the first keyword that is not a parameter.
\<close>

definition call_keywords :: "string list \<Rightarrow> string list \<Rightarrow> string list \<Rightarrow> py_error option" where
  "call_keywords params explicit kwargs =
     (case filter (\<lambda>k. k \<in> set explicit) kwargs of
        k # ks \<Rightarrow> Some (TypeError (''got multiple values for keyword argument '' @ k))
      | [] \<Rightarrow>
          (case filter (\<lambda>k. k \<notin> set params) (explicit @ kwargs) of
             k # ks \<Rightarrow> Some (TypeError (''got an unexpected keyword argument '' @ k))
           | [] \<Rightarrow> None))"

text \<open>
  The truth value of an attribute that holds \<^verbatim>\<open>None\<close> or a list: false for \<^verbatim>\<open>None\<close> and
  for the empty list.  \<open>the_list\<close> reads the list.
\<close>

fun truthy :: "'a list option \<Rightarrow> bool" where
  "truthy None = False"
| "truthy (Some []) = False"
| "truthy (Some (x # xs)) = True"

fun the_list :: "'a list option \<Rightarrow> 'a list" where
  "the_list None = []"
| "the_list (Some xs) = xs"

section \<open>The geometry kernel (compas.geometry, compas.datastructures)\<close>

text \<open>
  The elements use points, vectors, frames, boxes, meshes, polygons and transformations of
  the \<^verbatim>\<open>compas\<close> library.  This section holds the part of that kernel the elements call.
\<close>

type_synonym vec = "real \<times> real \<times> real"

fun add_vectors :: "vec \<Rightarrow> vec \<Rightarrow> vec" where
  "add_vectors (a, b, c) (x, y, z) = (a + x, b + y, c + z)"

fun subtract_vectors :: "vec \<Rightarrow> vec \<Rightarrow> vec" where
  "subtract_vectors (a, b, c) (x, y, z) = (a - x, b - y, c - z)"

fun scale_vector :: "vec \<Rightarrow> real \<Rightarrow> vec" where
  "scale_vector (a, b, c) k = (a * k, b * k, c * k)"

fun neg_vector :: "vec \<Rightarrow> vec" where
  "neg_vector (a, b, c) = (- a, - b, - c)"

fun dot_vectors :: "vec \<Rightarrow> vec \<Rightarrow> real" where
  "dot_vectors (a, b, c) (x, y, z) = a * x + b * y + c * z"

fun cross_vectors :: "vec \<Rightarrow> vec \<Rightarrow> vec" where
  "cross_vectors (a, b, c) (x, y, z) = (b * z - c * y, c * x - a * z, a * y - b * x)"

definition length_vector :: "vec \<Rightarrow> real" where
  "length_vector v = sqrt (dot_vectors v v)"

text \<open>\<^verbatim>\<open>Vector.unitize\<close> divides each coordinate by the length.\<close>

definition unitize :: "vec \<Rightarrow> py_error + vec" where
  "unitize v =
     (let l = length_vector v
      in if l = 0 then Inl ZeroDivisionError else Inr (scale_vector v (1 / l)))"

record frame =
  point :: vec
  xaxis :: vec
  yaxis :: vec

definition zaxis :: "frame \<Rightarrow> vec" where
  "zaxis f = cross_vectors (xaxis f) (yaxis f)"

text \<open>
  \<^verbatim>\<open>Frame(point, xaxis, yaxis)\<close>: the x axis is unitized, the y axis is made orthogonal to
  it through the unitized z axis.
\<close>

definition Frame_new :: "vec \<Rightarrow> vec \<Rightarrow> vec \<Rightarrow> py_error + frame" where
  "Frame_new p x y =
     (case unitize x of
        Inl e \<Rightarrow> Inl e
      | Inr x1 \<Rightarrow>
          (case unitize y of
             Inl e \<Rightarrow> Inl e
           | Inr y1 \<Rightarrow>
               (case unitize (cross_vectors x1 y1) of
                  Inl e \<Rightarrow> Inl e
                | Inr z1 \<Rightarrow> Inr \<lparr>point = p, xaxis = x1, yaxis = cross_vectors z1 x1\<rparr>)))"

definition worldXY :: frame where
  "worldXY = \<lparr>point = (0, 0, 0), xaxis = (1, 0, 0), yaxis = (0, 1, 0)\<rparr>"

type_synonym line = "vec \<times> vec"

type_synonym polygon = "vec list"

record box =
  box_frame :: frame
  xsize :: real
  ysize :: real
  zsize :: real

text \<open>The named sizes of a box: width along x, depth along y, height along z.\<close>

definition width :: "box \<Rightarrow> real" where "width b = xsize b"
definition depth :: "box \<Rightarrow> real" where "depth b = ysize b"
definition height :: "box \<Rightarrow> real" where "height b = zsize b"

record mesh =
  vertices :: "vec list"
  faces :: "nat list list"


text \<open>
  The corners of a box, in the kernel's order: four bottom corners, then the corners above
  the first, fourth, third and second of them.
\<close>

definition Box_points :: "box \<Rightarrow> vec list" where
  "Box_points b =
     (let p = point (box_frame b);
          x = xaxis (box_frame b);
          y = yaxis (box_frame b);
          z = zaxis (box_frame b);
          dx = 0.5 * xsize b;
          dy = 0.5 * ysize b;
          dz = 0.5 * zsize b;
          a = add_vectors p (add_vectors (add_vectors (scale_vector x (- dx)) (scale_vector y (- dy))) (scale_vector z (- dz)));
          b1 = add_vectors p (add_vectors (add_vectors (scale_vector x (- dx)) (scale_vector y dy)) (scale_vector z (- dz)));
          c = add_vectors p (add_vectors (add_vectors (scale_vector x dx) (scale_vector y dy)) (scale_vector z (- dz)));
          d = add_vectors p (add_vectors (add_vectors (scale_vector x dx) (scale_vector y (- dy))) (scale_vector z (- dz)));
          e = add_vectors a (scale_vector z (zsize b));
          f = add_vectors d (scale_vector z (zsize b));
          g = add_vectors c (scale_vector z (zsize b));
          h = add_vectors b1 (scale_vector z (zsize b))
      in [a, b1, c, d, e, f, g, h])"

definition Box_corner :: "box \<Rightarrow> nat \<Rightarrow> vec" where
  "Box_corner b i = Box_points b ! i"

definition Box_faces :: "nat list list" where
  "Box_faces = [[0, 1, 2, 3], [0, 3, 5, 4], [3, 2, 6, 5], [2, 1, 7, 6], [1, 0, 4, 7], [4, 5, 6, 7]]"

definition Box_to_vertices_and_faces :: "box \<Rightarrow> vec list \<times> nat list list" where
  "Box_to_vertices_and_faces b = (Box_points b, Box_faces)"

definition Mesh_from_vertices_and_faces :: "vec list \<Rightarrow> nat list list \<Rightarrow> mesh" where
  "Mesh_from_vertices_and_faces vs fs = \<lparr>vertices = vs, faces = fs\<rparr>"

definition Mesh_to_vertices_and_faces :: "mesh \<Rightarrow> vec list \<times> nat list list" where
  "Mesh_to_vertices_and_faces m = (vertices m, faces m)"

text \<open>\<^verbatim>\<open>centroid_points\<close>: the mean of the points; unpacking no points is a ValueError.\<close>

definition centroid_points :: "vec list \<Rightarrow> py_error + vec" where
  "centroid_points ps =
     (if ps = [] then Inl (ValueError ''not enough values to unpack'')
      else Inr (sum_list (map fst ps) / real (length ps),
                sum_list (map (fst \<circ> snd) ps) / real (length ps),
                sum_list (map (snd \<circ> snd) ps) / real (length ps)))"

text \<open>
  \<^verbatim>\<open>bounding_box\<close>: the eight corners of the smallest world-axis-aligned box around the
  points, bottom corners counter-clockwise from the minimum, then the top corners.
\<close>

definition min_list_r :: "real list \<Rightarrow> real" where
  "min_list_r xs = fold min (tl xs) (hd xs)"

definition max_list_r :: "real list \<Rightarrow> real" where
  "max_list_r xs = fold max (tl xs) (hd xs)"

definition bounding_box :: "vec list \<Rightarrow> py_error + vec list" where
  "bounding_box ps =
     (if ps = [] then Inl (ValueError ''not enough values to unpack'')
      else
        (let xs = map fst ps; ys = map (fst \<circ> snd) ps; zs = map (snd \<circ> snd) ps;
             min_x = min_list_r xs; max_x = max_list_r xs;
             min_y = min_list_r ys; max_y = max_list_r ys;
             min_z = min_list_r zs; max_z = max_list_r zs
         in Inr [(min_x, min_y, min_z), (max_x, min_y, min_z), (max_x, max_y, min_z), (min_x, max_y, min_z),
                 (min_x, min_y, max_z), (max_x, min_y, max_z), (max_x, max_y, max_z), (min_x, max_y, max_z)]))"

text \<open>
  \<^verbatim>\<open>Box.from_bounding_box\<close> builds the box spanned by the corners it is given: the edges
  from corner 0 to corners 1, 3 and 4 give the axes and the sizes, the mean of the corners
  the centre.  It does not look for minima and maxima; that is \<^verbatim>\<open>bounding_box\<close>'s work.
\<close>

definition Box_from_bounding_box :: "vec list \<Rightarrow> py_error + box" where
  "Box_from_bounding_box bbox =
     (if length bbox < 5 then Inl IndexError
      else
        (let a = bbox ! 0; b = bbox ! 1; d = bbox ! 3; e = bbox ! 4;
             xv = subtract_vectors b a;
             yv = subtract_vectors d a;
             zv = subtract_vectors e a
         in case centroid_points bbox of
              Inl err \<Rightarrow> Inl err
            | Inr c \<Rightarrow>
                (case Frame_new c xv yv of
                   Inl err \<Rightarrow> Inl err
                 | Inr fr \<Rightarrow>
                     Inr \<lparr>box_frame = fr, xsize = length_vector xv,
                          ysize = length_vector yv, zsize = length_vector zv\<rparr>)))"

definition Box_from_points :: "vec list \<Rightarrow> py_error + box" where
  "Box_from_points ps =
     (case bounding_box ps of Inl err \<Rightarrow> Inl err | Inr bbox \<Rightarrow> Box_from_bounding_box bbox)"

text \<open>\<^verbatim>\<open>Mesh.aabb\<close>: the bounding box of the vertices, as eight points.\<close>

definition Mesh_aabb :: "mesh \<Rightarrow> py_error + vec list" where
  "Mesh_aabb m = bounding_box (vertices m)"

text \<open>\<^verbatim>\<open>Mesh.centroid\<close>: the centroid of the vertices.\<close>

definition Mesh_centroid :: "mesh \<Rightarrow> py_error + vec" where
  "Mesh_centroid m = centroid_points (vertices m)"

subsection \<open>Transformations\<close>

text \<open>
  A transformation is an affine map: the three rows of its linear part and a translation.
  Applied to a frame or a box it moves the origin as a point and the axes as vectors, which
  is what the kernel does for a rigid transformation.
\<close>

record transformation =
  row1 :: vec
  row2 :: vec
  row3 :: vec
  translation :: vec

definition transform_vector :: "transformation \<Rightarrow> vec \<Rightarrow> vec" where
  "transform_vector T v = (dot_vectors (row1 T) v, dot_vectors (row2 T) v, dot_vectors (row3 T) v)"

definition transform_point :: "transformation \<Rightarrow> vec \<Rightarrow> vec" where
  "transform_point T p = add_vectors (transform_vector T p) (translation T)"

definition column :: "transformation \<Rightarrow> nat \<Rightarrow> vec" where
  "column T i =
     (case (row1 T, row2 T, row3 T) of
        ((a1, a2, a3), (b1, b2, b3), (c1, c2, c3)) \<Rightarrow>
          if i = 0 then (a1, b1, c1) else if i = 1 then (a2, b2, c2) else (a3, b3, c3))"

text \<open>A rigid transformation: the columns of the linear part are a right-handed orthonormal basis.\<close>

definition rigid :: "transformation \<Rightarrow> bool" where
  "rigid T \<longleftrightarrow>
     dot_vectors (column T 0) (column T 0) = 1 \<and> dot_vectors (column T 1) (column T 1) = 1 \<and>
     dot_vectors (column T 2) (column T 2) = 1 \<and> dot_vectors (column T 0) (column T 1) = 0 \<and>
     dot_vectors (column T 0) (column T 2) = 0 \<and> dot_vectors (column T 1) (column T 2) = 0 \<and>
     cross_vectors (column T 0) (column T 1) = column T 2"

text \<open>\<open>is_inverse Ti T\<close>: \<open>Ti\<close> is the matrix inverse of \<open>T\<close>, that is \<open>Ti * T\<close> is the identity.\<close>

definition is_inverse :: "transformation \<Rightarrow> transformation \<Rightarrow> bool" where
  "is_inverse Ti T \<longleftrightarrow>
     transform_vector Ti (column T 0) = (1, 0, 0) \<and>
     transform_vector Ti (column T 1) = (0, 1, 0) \<and>
     transform_vector Ti (column T 2) = (0, 0, 1) \<and>
     transform_point Ti (translation T) = (0, 0, 0)"

definition Frame_transform :: "transformation \<Rightarrow> frame \<Rightarrow> frame" where
  "Frame_transform T f =
     \<lparr>point = transform_point T (point f),
      xaxis = transform_vector T (xaxis f),
      yaxis = transform_vector T (yaxis f)\<rparr>"

definition Box_transform :: "transformation \<Rightarrow> box \<Rightarrow> box" where
  "Box_transform T b = b\<lparr>box_frame := Frame_transform T (box_frame b)\<rparr>"

definition Mesh_transform :: "transformation \<Rightarrow> mesh \<Rightarrow> mesh" where
  "Mesh_transform T m = m\<lparr>vertices := map (transform_point T) (vertices m)\<rparr>"

definition Polygon_transform :: "transformation \<Rightarrow> polygon \<Rightarrow> polygon" where
  "Polygon_transform T pg = map (transform_point T) pg"

definition Line_transform :: "transformation \<Rightarrow> line \<Rightarrow> line" where
  "Line_transform T l = (transform_point T (fst l), transform_point T (snd l))"


section \<open>Element\<close>

text \<open>
  The attributes \<^verbatim>\<open>Element.__init__\<close> sets.  A cache that holds \<^verbatim>\<open>None\<close> is \<open>None\<close>
  here; the geometry type is the variant's (a box for a Beam, a mesh for a Block).
\<close>

record 'g element =
  attr_name :: "string option"
  attr_graph_node :: "nat option"
  attr_tree_node :: "nat option"
  attr_aabb :: "box option"
  attr_obb :: "box option"
  attr_collision_mesh :: "mesh option"
  attr_geometry :: "'g option"
  attr_frame :: "frame option"

definition Element_params :: "string list" where
  "Element_params = [''geometry'', ''frame'', ''name'']"

definition Element_init :: "'g option \<Rightarrow> frame option \<Rightarrow> string option \<Rightarrow> 'g element" where
  "Element_init geometry fr nm =
     \<lparr>attr_name = nm, attr_graph_node = None, attr_tree_node = None,
      attr_aabb = None, attr_obb = None, attr_collision_mesh = None,
      attr_geometry = geometry, attr_frame = fr\<rparr>"

section \<open>Beam\<close>

record beam = "box element" +
  beam_geometry_simplified :: "line option"
  beam_face_polygons :: "polygon list option"

text \<open>
  \<^verbatim>\<open>Beam._create_box(frame, xsize, ysize, zsize)\<close>: the box's frame is the beam's, moved
  half of \<open>zsize\<close> along its x axis; the box is \<^verbatim>\<open>Box(zsize, xsize, ysize, frame=boxframe)\<close>.
\<close>

definition create_box :: "frame \<Rightarrow> real \<Rightarrow> real \<Rightarrow> real \<Rightarrow> box" where
  "create_box fr xs ys zs =
     (let boxframe = fr\<lparr>point := add_vectors (point fr) (scale_vector (scale_vector (xaxis fr) zs) 0.5)\<rparr>
      in \<lparr>box_frame = boxframe, xsize = zs, ysize = xs, zsize = ys\<rparr>)"

text \<open>
  \<^verbatim>\<open>Beam.__init__(frame, length, width, height, **kwargs)\<close>.  \<open>kwargs\<close> are the extra keyword
  arguments, a name among them at most.  The call of \<^verbatim>\<open>Element.__init__\<close> passes the
  keywords \<^verbatim>\<open>frame\<close>, \<^verbatim>\<open>geometry_simplified\<close>, \<^verbatim>\<open>geometry\<close> and the extra ones.
\<close>

definition Beam_init :: "frame \<Rightarrow> real \<Rightarrow> real \<Rightarrow> real \<Rightarrow> (string \<times> string) list \<Rightarrow> py_error + beam" where
  "Beam_init fr len wid hei kwargs =
     (if len \<le> 0 then Inl (ValueError ''Length should be greater than zero.'')
      else if wid \<le> 0 then Inl (ValueError ''Width should be greater than zero.'')
      else if hei \<le> 0 then Inl (ValueError ''Height should be greater than zero.'')
      else
        (let geometry_simplified = (point fr, add_vectors (point fr) (scale_vector (xaxis fr) len));
             geometry = create_box fr wid hei len
         in case call_keywords Element_params [''frame'', ''geometry_simplified'', ''geometry''] (map fst kwargs) of
              Some err \<Rightarrow> Inl err
            | None \<Rightarrow>
                Inr (element.extend (Element_init (Some geometry) (Some fr) (map_of kwargs ''name''))
                       (beam.fields None None))))"

section \<open>Block\<close>

record block = "mesh element" +
  block_geometry_simplified :: "vec option"
  block_face_polygons :: "polygon list option"

text \<open>What a caller may pass as \<^verbatim>\<open>closed_mesh\<close>: a mesh, or an object of another type.\<close>

datatype pyobject = MeshObject mesh | OtherObject

text \<open>
  \<^verbatim>\<open>Block.__init__(closed_mesh, geometry_simplified=None, **kwargs)\<close>.  The call of
  \<^verbatim>\<open>Element.__init__\<close> passes the keywords \<^verbatim>\<open>frame\<close>, \<^verbatim>\<open>geometry_simplified\<close>, \<^verbatim>\<open>geometry\<close>,
  \<^verbatim>\<open>index\<close> and the extra ones.
\<close>

definition Block_init :: "pyobject \<Rightarrow> vec option \<Rightarrow> (string \<times> string) list \<Rightarrow> py_error + block" where
  "Block_init closed_mesh geometry_simplified kwargs =
     (case closed_mesh of
        OtherObject \<Rightarrow> Inl (TypeError ''Mesh is not of type compas.datastructures.Mesh'')
      | MeshObject m \<Rightarrow>
          (case Mesh_centroid m of
             Inl err \<Rightarrow> Inl err
           | Inr centroid \<Rightarrow>
               (let gs = (case geometry_simplified of Some g \<Rightarrow> g | None \<Rightarrow> centroid)
                in case Frame_new centroid (1, 0, 0) (0, 1, 0) of
                     Inl err \<Rightarrow> Inl err
                   | Inr fr \<Rightarrow>
                       (case call_keywords Element_params
                               [''frame'', ''geometry_simplified'', ''geometry'', ''index''] (map fst kwargs) of
                          Some err \<Rightarrow> Inl err
                        | None \<Rightarrow>
                            Inr (element.extend (Element_init (Some m) (Some fr) (map_of kwargs ''name''))
                                   (block.fields None (Some [])))))))"


section \<open>Methods of Element\<close>

text \<open>
  The property \<^verbatim>\<open>geometry\<close>: a missing geometry is computed by \<^verbatim>\<open>compute_geometry\<close>, which
  neither Beam nor Block overrides and which raises NotImplementedError.
\<close>

definition Element_geometry :: "('g, 'z) element_scheme \<Rightarrow> py_error + 'g" where
  "Element_geometry s =
     (case attr_geometry s of None \<Rightarrow> Inl NotImplementedError | Some g \<Rightarrow> Inr g)"

text \<open>
  Modelled from the spec: \<^verbatim>\<open>Data.copy\<close>, the kernel's copy of an object, which the spec
  describes as a deep value copy.  As a value, the copy is the state itself.
\<close>

definition Data_copy :: "'a \<Rightarrow> 'a" where
  "Data_copy s = s"

section \<open>Methods of Beam\<close>

definition Beam_dimensions :: "beam \<Rightarrow> py_error + real list" where
  "Beam_dimensions s =
     (case Element_geometry s of
        Inl err \<Rightarrow> Inl err
      | Inr g \<Rightarrow> Inr [width g, height g, depth g])"

text \<open>
  The three statements \<^verbatim>\<open>box.xsize *= (box.width + inflate) / box.width\<close> (then y with the
  depth, then z with the height) of \<^verbatim>\<open>Beam.compute_aabb\<close> and \<^verbatim>\<open>Beam.compute_obb\<close>; a
  division by a zero size raises.
\<close>

definition Beam_inflate :: "real \<Rightarrow> box \<Rightarrow> py_error + box" where
  "Beam_inflate inflate b0 =
     (if width b0 = 0 then Inl ZeroDivisionError
      else
        (let b1 = b0\<lparr>xsize := xsize b0 * ((width b0 + inflate) / width b0)\<rparr>
         in if depth b1 = 0 then Inl ZeroDivisionError
            else
              (let b2 = b1\<lparr>ysize := ysize b1 * ((depth b1 + inflate) / depth b1)\<rparr>
               in if height b2 = 0 then Inl ZeroDivisionError
                  else Inr (b2\<lparr>zsize := zsize b2 * ((height b2 + inflate) / height b2)\<rparr>))))"

definition Beam_compute_aabb :: "real \<Rightarrow> beam \<Rightarrow> py_error + box \<times> beam" where
  "Beam_compute_aabb inflate s =
     (case Element_geometry s of
        Inl err \<Rightarrow> Inl err
      | Inr g \<Rightarrow>
          (case Box_from_bounding_box (map (Box_corner g) [0..<8]) of
             Inl err \<Rightarrow> Inl err
           | Inr b0 \<Rightarrow>
               (case Beam_inflate inflate b0 of
                  Inl err \<Rightarrow> Inl err
                | Inr b \<Rightarrow> Inr (b, s\<lparr>attr_aabb := Some b\<rparr>))))"

definition Beam_compute_obb :: "real \<Rightarrow> beam \<Rightarrow> py_error + box \<times> beam" where
  "Beam_compute_obb inflate s =
     (case Element_geometry s of
        Inl err \<Rightarrow> Inl err
      | Inr g \<Rightarrow>
          (case Beam_inflate inflate (Data_copy g) of
             Inl err \<Rightarrow> Inl err
           | Inr b \<Rightarrow> Inr (b, s\<lparr>attr_obb := Some b\<rparr>)))"

definition Beam_compute_collision_mesh :: "beam \<Rightarrow> py_error + mesh \<times> beam" where
  "Beam_compute_collision_mesh s =
     (case Element_geometry s of
        Inl err \<Rightarrow> Inl err
      | Inr g \<Rightarrow>
          (let vf = Box_to_vertices_and_faces g;
               m = Mesh_from_vertices_and_faces (fst vf) (snd vf)
           in Inr (m, s\<lparr>attr_collision_mesh := Some m\<rparr>)))"

text \<open>The cached properties: computed on the first read, then kept.\<close>

definition Beam_aabb :: "beam \<Rightarrow> py_error + box \<times> beam" where
  "Beam_aabb s = (case attr_aabb s of None \<Rightarrow> Beam_compute_aabb 0 s | Some b \<Rightarrow> Inr (b, s))"

definition Beam_obb :: "beam \<Rightarrow> py_error + box \<times> beam" where
  "Beam_obb s = (case attr_obb s of None \<Rightarrow> Beam_compute_obb 0 s | Some b \<Rightarrow> Inr (b, s))"

definition Beam_collision_mesh :: "beam \<Rightarrow> py_error + mesh \<times> beam" where
  "Beam_collision_mesh s =
     (case attr_collision_mesh s of None \<Rightarrow> Beam_compute_collision_mesh s | Some m \<Rightarrow> Inr (m, s))"

definition Beam_mid_point :: "beam \<Rightarrow> py_error + vec" where
  "Beam_mid_point s =
     (case attr ''point'' (attr_frame s) of
        Inl err \<Rightarrow> Inl err
      | Inr fr \<Rightarrow>
          (case Beam_dimensions s of
             Inl err \<Rightarrow> Inl err
           | Inr dims \<Rightarrow>
               Inr (add_vectors (point fr) (scale_vector (scale_vector (xaxis fr) (dims ! 2)) 0.5))))"

definition quad :: "vec \<Rightarrow> vec \<times> vec \<Rightarrow> polygon" where
  "quad p offset =
     [add_vectors (add_vectors p (fst offset)) (snd offset),
      subtract_vectors (add_vectors p (fst offset)) (snd offset),
      subtract_vectors (subtract_vectors p (fst offset)) (snd offset),
      add_vectors (subtract_vectors p (fst offset)) (snd offset)]"

definition Beam_compute_face_polygons :: "beam \<Rightarrow> py_error + polygon list" where
  "Beam_compute_face_polygons s =
     (case Beam_mid_point s of
        Inl err \<Rightarrow> Inl err
      | Inr mid_point \<Rightarrow>
          (case attr ''yaxis'' (attr_frame s) of
             Inl err \<Rightarrow> Inl err
           | Inr fr \<Rightarrow>
               (case Beam_dimensions s of
                  Inl err \<Rightarrow> Inl err
                | Inr dims \<Rightarrow>
                    (let p0 = add_vectors mid_point (scale_vector (scale_vector (yaxis fr) (dims ! 0)) 0.5);
                         p1 = add_vectors mid_point (scale_vector (scale_vector (neg_vector (zaxis fr)) (dims ! 1)) 0.5);
                         p2 = add_vectors mid_point (scale_vector (scale_vector (neg_vector (yaxis fr)) (dims ! 0)) 0.5);
                         p3 = add_vectors mid_point (scale_vector (scale_vector (zaxis fr) (dims ! 1)) 0.5);
                         p5 = add_vectors (point fr) (scale_vector (xaxis fr) (dims ! 2));
                         ox = scale_vector (scale_vector (xaxis fr) (dims ! 2)) 0.5;
                         oy = scale_vector (scale_vector (yaxis fr) (dims ! 0)) 0.5;
                         oz = scale_vector (scale_vector (zaxis fr) (dims ! 1)) 0.5;
                         offsets = [(ox, oz), (ox, oy), (ox, oz), (ox, oy), (oy, oz), (oy, oz)]
                     in Inr (map (\<lambda>(p, offset). quad p offset)
                              (zip [p0, p1, p2, p3, point fr, p5] offsets))))))"

definition Beam_face_polygons :: "beam \<Rightarrow> py_error + polygon list \<times> beam" where
  "Beam_face_polygons s =
     (if truthy (beam_face_polygons s) then Inr (the_list (beam_face_polygons s), s)
      else (case Beam_compute_face_polygons s of
              Inl err \<Rightarrow> Inl err
            | Inr ps \<Rightarrow> Inr (ps, s\<lparr>beam_face_polygons := Some ps\<rparr>)))"

text \<open>
  \<^verbatim>\<open>Beam.transform\<close>: frame, simplified geometry and geometry first, then each cache that
  holds a value.
\<close>

definition Beam_transform :: "transformation \<Rightarrow> beam \<Rightarrow> py_error + beam" where
  "Beam_transform T s =
     (case attr ''transform'' (attr_frame s) of
        Inl err \<Rightarrow> Inl err
      | Inr fr \<Rightarrow>
     (let s1 = s\<lparr>attr_frame := Some (Frame_transform T fr)\<rparr> in
      case attr ''geometry_simplified'' (beam_geometry_simplified s1) of
        Inl err \<Rightarrow> Inl err
      | Inr gs \<Rightarrow>
     (let s2 = s1\<lparr>beam_geometry_simplified := Some (Line_transform T gs)\<rparr> in
      case Element_geometry s2 of
        Inl err \<Rightarrow> Inl err
      | Inr g \<Rightarrow>
     (let s3 = s2\<lparr>attr_geometry := Some (Box_transform T g)\<rparr> in
      case (if attr_aabb s3 \<noteq> None then map_sum id snd (Beam_compute_aabb 0 s3) else Inr s3) of
        Inl err \<Rightarrow> Inl err
      | Inr s4 \<Rightarrow>
     (let s5 = (case attr_obb s4 of
                  None \<Rightarrow> s4
                | Some b \<Rightarrow> s4\<lparr>attr_obb := Some (Box_transform T b)\<rparr>);
          s6 = (case attr_collision_mesh s5 of
                  None \<Rightarrow> s5
                | Some m \<Rightarrow> s5\<lparr>attr_collision_mesh := Some (Mesh_transform T m)\<rparr>)
      in Inr (if truthy (beam_face_polygons s6)
              then s6\<lparr>beam_face_polygons := Some (map (Polygon_transform T) (the_list (beam_face_polygons s6)))\<rparr>
              else s6))))))"

text \<open>\<^verbatim>\<open>Element.transformed\<close>, on a Beam: the transformed copy.\<close>

definition Beam_transformed :: "transformation \<Rightarrow> beam \<Rightarrow> py_error + beam" where
  "Beam_transformed T s = Beam_transform T (Data_copy s)"


section \<open>Methods of Block\<close>

text \<open>
  \<^verbatim>\<open>type(x) is None\<close>: the type of an object is a class, never \<^verbatim>\<open>None\<close>.
\<close>

definition type_is_None :: "'a \<Rightarrow> bool" where
  "type_is_None x = False"

definition Block_compute_aabb :: "real \<Rightarrow> block \<Rightarrow> py_error + box \<times> block" where
  "Block_compute_aabb inflate s =
     (case Element_geometry s of
        Inl err \<Rightarrow> Inl err
      | Inr g \<Rightarrow>
          (case Mesh_aabb g of
             Inl err \<Rightarrow> Inl err
           | Inr pts \<Rightarrow>
               (case Box_from_points pts of
                  Inl err \<Rightarrow> Inl err
                | Inr b0 \<Rightarrow>
                    (let b1 = b0\<lparr>xsize := xsize b0 + inflate\<rparr>;
                         b2 = b1\<lparr>ysize := ysize b1 + inflate\<rparr>;
                         b3 = b2\<lparr>zsize := zsize b2 + inflate\<rparr>
                     in Inr (b3, s\<lparr>attr_aabb := Some b3\<rparr>)))))"

text \<open>
  \<^verbatim>\<open>Block.compute_obb\<close>.  \<open>mesh_obb\<close> is the kernel's \<^verbatim>\<open>Mesh.obb\<close>, the corner points of an
  oriented bounding box of the mesh, taken as a parameter.
\<close>

definition Block_compute_obb ::
  "(mesh \<Rightarrow> py_error + vec list) \<Rightarrow> real \<Rightarrow> block \<Rightarrow> py_error + box \<times> block" where
  "Block_compute_obb mesh_obb inflate s =
     (case Element_geometry s of
        Inl err \<Rightarrow> Inl err
      | Inr g \<Rightarrow>
          (case mesh_obb g of
             Inl err \<Rightarrow> Inl err
           | Inr pts \<Rightarrow>
               (case Box_from_points pts of
                  Inl err \<Rightarrow> Inl err
                | Inr b0 \<Rightarrow>
                    (let b1 = b0\<lparr>xsize := xsize b0 + inflate\<rparr>;
                         b2 = b1\<lparr>ysize := ysize b1 + inflate\<rparr>;
                         b3 = b2\<lparr>zsize := zsize b2 + inflate\<rparr>
                     in Inr (b3, s\<lparr>attr_obb := Some b3\<rparr>)))))"

text \<open>
  \<^verbatim>\<open>Block.compute_collision_mesh\<close>.  \<open>convex_hull\<close> is the kernel's function of that name,
  from points to the faces of their hull (lists of indices into the points), taken as a
  parameter.
\<close>

definition Block_compute_collision_mesh ::
  "(vec list \<Rightarrow> nat list list) \<Rightarrow> block \<Rightarrow> py_error + mesh \<times> block" where
  "Block_compute_collision_mesh convex_hull s =
     (case Element_geometry s of
        Inl err \<Rightarrow> Inl err
      | Inr g \<Rightarrow>
          (let points = fst (Mesh_to_vertices_and_faces g);
               faces0 = snd (Mesh_to_vertices_and_faces g);
               faces1 = convex_hull points;
               s1 = s\<lparr>attr_collision_mesh := Some (Mesh_from_vertices_and_faces points faces1)\<rparr>
           in Inr (Mesh_from_vertices_and_faces points faces1, s1)))"

definition Block_aabb :: "block \<Rightarrow> py_error + box \<times> block" where
  "Block_aabb s = (case attr_aabb s of None \<Rightarrow> Block_compute_aabb 0 s | Some b \<Rightarrow> Inr (b, s))"

text \<open>The property \<^verbatim>\<open>Block.dimensions\<close>.\<close>

definition Block_dimensions :: "block \<Rightarrow> py_error + real list \<times> block" where
  "Block_dimensions s =
     (case Element_geometry s of
        Inl err \<Rightarrow> Inl err
      | Inr g \<Rightarrow>
          (case (if \<not> type_is_None g then map_sum id snd (Block_compute_aabb 0 s) else Inr s) of
             Inl err \<Rightarrow> Inl err
           | Inr s1 \<Rightarrow>
               (case Block_aabb s1 of
                  Inl err \<Rightarrow> Inl err
                | Inr (b, s2) \<Rightarrow> Inr ([width b, height b, depth b], s2))))"

text \<open>
  \<^verbatim>\<open>Block._compute_face_polygons\<close>.  An object whose \<^verbatim>\<open>_face_polygons\<close> attribute exists
  (\<open>Some\<close>) gets it back.  Otherwise the method loops over the geometry, and a mesh is not
  iterable.
\<close>

definition Block_compute_face_polygons :: "block \<Rightarrow> py_error + polygon list \<times> block" where
  "Block_compute_face_polygons s =
     (case block_face_polygons s of
        Some ps \<Rightarrow> Inr (ps, s)
      | None \<Rightarrow>
          (case Element_geometry (s\<lparr>block_face_polygons := Some []\<rparr>) of
             Inl err \<Rightarrow> Inl err
           | Inr g \<Rightarrow> Inl (TypeError ''Mesh object is not iterable'')))"

text \<open>The property \<^verbatim>\<open>Block.face_polygons\<close>; reading a missing attribute raises.\<close>

definition Block_face_polygons :: "block \<Rightarrow> py_error + polygon list \<times> block" where
  "Block_face_polygons s =
     (case block_face_polygons s of
        None \<Rightarrow> Inl (AttributeError ''_face_polygons'')
      | Some [] \<Rightarrow>
          (case Block_compute_face_polygons s of
             Inl err \<Rightarrow> Inl err
           | Inr (ps, s1) \<Rightarrow> Inr (ps, s1\<lparr>block_face_polygons := Some ps\<rparr>))
      | Some (p # ps) \<Rightarrow> Inr (p # ps, s))"

text \<open>
  \<^verbatim>\<open>Block.transform\<close>.  With a collision mesh in the cache the method calls itself, so the
  first argument is the number of stack frames Python still allows; at none left the
  interpreter raises RecursionError.
\<close>

fun Block_transform :: "nat \<Rightarrow> transformation \<Rightarrow> block \<Rightarrow> py_error + block" where
  "Block_transform 0 T s = Inl RecursionError"
| "Block_transform (Suc depth_left) T s =
     (case attr ''transform'' (attr_frame s) of
        Inl err \<Rightarrow> Inl err
      | Inr fr \<Rightarrow>
     (let s1 = s\<lparr>attr_frame := Some (Frame_transform T fr)\<rparr> in
      case attr ''geometry_simplified'' (block_geometry_simplified s1) of
        Inl err \<Rightarrow> Inl err
      | Inr gs \<Rightarrow>
     (let s2 = s1\<lparr>block_geometry_simplified := Some (transform_point T gs)\<rparr> in
      case Element_geometry s2 of
        Inl err \<Rightarrow> Inl err
      | Inr g \<Rightarrow>
     (let s3 = s2\<lparr>attr_geometry := Some (Mesh_transform T g)\<rparr> in
      case (if attr_aabb s3 \<noteq> None then map_sum id snd (Block_compute_aabb 0 s3) else Inr s3) of
        Inl err \<Rightarrow> Inl err
      | Inr s4 \<Rightarrow>
     (let s5 = (case attr_obb s4 of
                  None \<Rightarrow> s4
                | Some b \<Rightarrow> s4\<lparr>attr_obb := Some (Box_transform T b)\<rparr>)
      in case (if attr_collision_mesh s5 \<noteq> None then Block_transform depth_left T s5 else Inr s5) of
           Inl err \<Rightarrow> Inl err
         | Inr s6 \<Rightarrow>
             (case block_face_polygons s6 of
                None \<Rightarrow> Inl (AttributeError ''_face_polygons'')
              | Some [] \<Rightarrow> Inr s6
              | Some (p # ps) \<Rightarrow>
                  Inr (s6\<lparr>block_face_polygons := Some (map (Polygon_transform T) (p # ps))\<rparr>)))))))"

definition Block_transformed :: "nat \<Rightarrow> transformation \<Rightarrow> block \<Rightarrow> py_error + block" where
  "Block_transformed depth_left T s = Block_transform depth_left T (Data_copy s)"

section \<open>Notions the properties are stated with\<close>

text \<open>A frame whose x and y axes are orthogonal unit vectors, as \<^verbatim>\<open>Frame\<close> builds them.\<close>

definition orthonormal :: "frame \<Rightarrow> bool" where
  "orthonormal f \<longleftrightarrow>
     dot_vectors (xaxis f) (xaxis f) = 1 \<and> dot_vectors (yaxis f) (yaxis f) = 1 \<and>
     dot_vectors (xaxis f) (yaxis f) = 0"

text \<open>
  A box with an orthonormal frame and positive sizes, as \<^verbatim>\<open>_create_box\<close> builds it from an
  orthonormal frame and a positive length, width and height.
\<close>

definition proper_box :: "box \<Rightarrow> bool" where
  "proper_box g \<longleftrightarrow> orthonormal (box_frame g) \<and> 0 < xsize g \<and> 0 < ysize g \<and> 0 < zsize g"

text \<open>A vector along a world axis, and a box whose edges are parallel to the world axes.\<close>

definition world_axis :: "vec \<Rightarrow> bool" where
  "world_axis v \<longleftrightarrow>
     v = (1, 0, 0) \<or> v = (-1, 0, 0) \<or> v = (0, 1, 0) \<or> v = (0, -1, 0) \<or> v = (0, 0, 1) \<or> v = (0, 0, -1)"

definition axis_aligned :: "box \<Rightarrow> bool" where
  "axis_aligned b \<longleftrightarrow> world_axis (xaxis (box_frame b)) \<and> world_axis (yaxis (box_frame b))"

text \<open>A point within a box: its offset from the centre along each axis is at most half the size.\<close>

definition inside_box :: "box \<Rightarrow> vec \<Rightarrow> bool" where
  "inside_box b v \<longleftrightarrow>
     \<bar>dot_vectors (subtract_vectors v (point (box_frame b))) (xaxis (box_frame b))\<bar> \<le> xsize b / 2 \<and>
     \<bar>dot_vectors (subtract_vectors v (point (box_frame b))) (yaxis (box_frame b))\<bar> \<le> ysize b / 2 \<and>
     \<bar>dot_vectors (subtract_vectors v (point (box_frame b))) (zaxis (box_frame b))\<bar> \<le> zsize b / 2"

text \<open>
  The box of a beam's geometry \<open>g\<close> read back from its corners, each size grown by \<open>i\<close>:
  the x and y axes change places.
\<close>

definition corner_box :: "box \<Rightarrow> real \<Rightarrow> box" where
  "corner_box g i =
     \<lparr>box_frame = \<lparr>point = point (box_frame g), xaxis = yaxis (box_frame g), yaxis = xaxis (box_frame g)\<rparr>,
      xsize = ysize g + i, ysize = xsize g + i, zsize = zsize g + i\<rparr>"

text \<open>A box with every size grown by the margin \<open>i\<close>.\<close>

definition grow :: "real \<Rightarrow> box \<Rightarrow> box" where
  "grow i b = b\<lparr>xsize := xsize b + i, ysize := ysize b + i, zsize := zsize b + i\<rparr>"

text \<open>
  A beam moved by \<open>T\<close>: the frame, the simplified geometry, the geometry and every cache
  but the AABB transformed where present, the AABB cache as it was.  A block moved by
  \<open>T\<close>: the same, with the collision-mesh cache as it was too.
\<close>

definition Beam_moved :: "transformation \<Rightarrow> beam \<Rightarrow> beam" where
  "Beam_moved T s =
     s\<lparr>attr_frame := map_option (Frame_transform T) (attr_frame s),
       beam_geometry_simplified := map_option (Line_transform T) (beam_geometry_simplified s),
       attr_geometry := map_option (Box_transform T) (attr_geometry s),
       attr_obb := map_option (Box_transform T) (attr_obb s),
       attr_collision_mesh := map_option (Mesh_transform T) (attr_collision_mesh s),
       beam_face_polygons := map_option (map (Polygon_transform T)) (beam_face_polygons s)\<rparr>"

definition Block_moved :: "transformation \<Rightarrow> block \<Rightarrow> block" where
  "Block_moved T s =
     s\<lparr>attr_frame := map_option (Frame_transform T) (attr_frame s),
       block_geometry_simplified := map_option (transform_point T) (block_geometry_simplified s),
       attr_geometry := map_option (Mesh_transform T) (attr_geometry s),
       attr_obb := map_option (Box_transform T) (attr_obb s),
       block_face_polygons := map_option (map (Polygon_transform T)) (block_face_polygons s)\<rparr>"

text \<open>
  A script \<^verbatim>\<open>obj = C(...); obj.method(...)\<close>: the method runs on the object the constructor
  returns, and an exception of the constructor ends the script.
\<close>

definition and_then :: "py_error + 'a \<Rightarrow> ('a \<Rightarrow> py_error + 'b) \<Rightarrow> py_error + 'b" where
  "and_then r m = (case r of Inl e \<Rightarrow> Inl e | Inr s \<Rightarrow> m s)"

text \<open>
  The coordinates of a point in the frame of a box, and the sides of the box: a face of a
  mesh lies on the side \<open>k\<close> (0, 1, 2 for the local x, y, z axis) with sign \<open>sg\<close> when it has
  four distinct vertices, each a corner of the box whose \<open>k\<close>-th local coordinate is \<open>sg\<close>
  times half the size.
\<close>

definition local_point :: "box \<Rightarrow> vec \<Rightarrow> vec" where
  "local_point b v =
     (dot_vectors (subtract_vectors v (point (box_frame b))) (xaxis (box_frame b)),
      dot_vectors (subtract_vectors v (point (box_frame b))) (yaxis (box_frame b)),
      dot_vectors (subtract_vectors v (point (box_frame b))) (zaxis (box_frame b)))"

definition is_corner :: "box \<Rightarrow> vec \<Rightarrow> bool" where
  "is_corner b v \<longleftrightarrow>
     \<bar>fst (local_point b v)\<bar> = xsize b / 2 \<and> \<bar>fst (snd (local_point b v))\<bar> = ysize b / 2 \<and>
     \<bar>snd (snd (local_point b v))\<bar> = zsize b / 2"

definition coordinate :: "nat \<Rightarrow> vec \<Rightarrow> real" where
  "coordinate k v = (if k = 0 then fst v else if k = 1 then fst (snd v) else snd (snd v))"

definition size_along :: "nat \<Rightarrow> box \<Rightarrow> real" where
  "size_along k b = (if k = 0 then xsize b else if k = 1 then ysize b else zsize b)"

definition face_on_side :: "box \<Rightarrow> mesh \<Rightarrow> nat list \<Rightarrow> nat \<Rightarrow> real \<Rightarrow> bool" where
  "face_on_side b m f k sg \<longleftrightarrow>
     length f = 4 \<and> distinct f \<and>
     list_all (\<lambda>i. i < length (vertices m) \<and> is_corner b (vertices m ! i) \<and>
                  coordinate k (local_point b (vertices m ! i)) = sg * size_along k b / 2) f"

text \<open>
  Modelled from the spec: the kernel's \<^verbatim>\<open>convex_hull\<close> of a point set, which the spec names
  as a primitive the elements consume.  It returns the faces of the hull as lists of
  indices into the points; each face lies in a supporting plane of the points, that is,
  all points are on one side of the plane through the first three vertices of the face.
\<close>

definition plane_side :: "vec list \<Rightarrow> nat list \<Rightarrow> vec \<Rightarrow> real" where
  "plane_side pts f v =
     dot_vectors
       (cross_vectors (subtract_vectors (pts ! (f ! 1)) (pts ! (f ! 0)))
                      (subtract_vectors (pts ! (f ! 2)) (pts ! (f ! 0))))
       (subtract_vectors v (pts ! (f ! 0)))"

definition supporting_face :: "vec list \<Rightarrow> nat list \<Rightarrow> bool" where
  "supporting_face pts f \<longleftrightarrow>
     3 \<le> length f \<and> list_all (\<lambda>i. i < length pts) f \<and>
     (list_all (\<lambda>v. plane_side pts f v \<le> 0) pts \<or> list_all (\<lambda>v. 0 \<le> plane_side pts f v) pts)"

definition hull_contract :: "(vec list \<Rightarrow> nat list list) \<Rightarrow> vec list \<Rightarrow> bool" where
  "hull_contract convex_hull pts \<longleftrightarrow>
     convex_hull pts \<noteq> [] \<and> list_all (supporting_face pts) (convex_hull pts)"

section \<open>Example values\<close>

text \<open>
  A tetrahedron, and the attributes the statements of \<^verbatim>\<open>Block.__init__\<close> assign for it:
  those of \<^verbatim>\<open>Element.__init__\<close> (the mesh, the frame at the centroid, empty caches) and
  \<^verbatim>\<open>_face_polygons = []\<close>.  No statement assigns \<^verbatim>\<open>geometry_simplified\<close>.  The constructor as
  written raises before it returns the object, so this is a state of the model, not a
  value a call of the constructor yields.
\<close>

definition example_mesh :: mesh where
  "example_mesh = \<lparr>vertices = [(0, 0, 0), (1, 0, 0), (0, 1, 0), (0, 0, 1)],
                    faces = [[0, 2, 1], [0, 1, 3], [1, 2, 3], [0, 3, 2]]\<rparr>"

definition example_block :: block where
  "example_block =
     element.extend
       (Element_init (Some example_mesh)
          (Some \<lparr>point = (1/4, 1/4, 1/4), xaxis = (1, 0, 0), yaxis = (0, 1, 0)\<rparr>) None)
       (block.fields None (Some []))"

text \<open>The bounding box of the tetrahedron, and the same box with every size grown by 1/10.\<close>

definition unit_box :: box where
  "unit_box = \<lparr>box_frame = \<lparr>point = (1/2, 1/2, 1/2), xaxis = (1, 0, 0), yaxis = (0, 1, 0)\<rparr>,
               xsize = 1, ysize = 1, zsize = 1\<rparr>"

definition inflated_box :: box where
  "inflated_box = unit_box\<lparr>xsize := 11/10, ysize := 11/10, zsize := 11/10\<rparr>"

text \<open>
  The tetrahedron with its slanted face pushed in to the point (1/4, 1/4, 1/4): a closed
  mesh that is not convex.  The hull of its vertices is the tetrahedron.
\<close>

definition dented_mesh :: mesh where
  "dented_mesh = \<lparr>vertices = [(0, 0, 0), (1, 0, 0), (0, 1, 0), (0, 0, 1), (1/4, 1/4, 1/4)],
                   faces = [[0, 2, 1], [0, 1, 3], [0, 3, 2], [1, 2, 4], [2, 3, 4], [3, 1, 4]]\<rparr>"

definition example_hull :: "vec list \<Rightarrow> nat list list" where
  "example_hull pts = [[0, 2, 1], [0, 1, 3], [1, 2, 3], [0, 3, 2]]"

text \<open>A quarter turn about the world z axis followed by a translation, and its inverse.\<close>

definition example_T :: transformation where
  "example_T = \<lparr>row1 = (0, -1, 0), row2 = (1, 0, 0), row3 = (0, 0, 1), translation = (1, 2, 3)\<rparr>"

definition example_T_inverse :: transformation where
  "example_T_inverse = \<lparr>row1 = (0, 1, 0), row2 = (-1, 0, 0), row3 = (0, 0, 1), translation = (-2, 1, -3)\<rparr>"

text \<open>
  The six quadrilaterals \<^verbatim>\<open>compute_face_polygons\<close> computes from the world frame and the
  box \<^verbatim>\<open>_create_box\<close> builds for length 4, width 2 and height 1.
\<close>

definition example_beam_quads :: "polygon list" where
  "example_beam_quads =
     [[(2, 2, 1/2), (2, 2, -1/2), (0, 2, -1/2), (0, 2, 1/2)],
      [(2, 2, -1/2), (2, -2, -1/2), (0, -2, -1/2), (0, 2, -1/2)],
      [(2, -2, 1/2), (2, -2, -1/2), (0, -2, -1/2), (0, -2, 1/2)],
      [(2, 2, 1/2), (2, -2, 1/2), (0, -2, 1/2), (0, 2, 1/2)],
      [(0, 2, 1/2), (0, 2, -1/2), (0, -2, -1/2), (0, -2, 1/2)],
      [(2, 2, 1/2), (2, 2, -1/2), (2, -2, -1/2), (2, -2, 1/2)]]"

text \<open>A frame turned about the world z axis: its x axis is (3/5, 4/5, 0).\<close>

definition turned_frame :: frame where
  "turned_frame = \<lparr>point = (0, 0, 0), xaxis = (3/5, 4/5, 0), yaxis = (-4/5, 3/5, 0)\<rparr>"

text \<open>
  The box \<^verbatim>\<open>compute_aabb\<close> computes from the box \<^verbatim>\<open>_create_box\<close> builds on the turned frame
  for length 10, width 5 and height 1.
\<close>

definition turned_box :: box where
  "turned_box = \<lparr>box_frame = \<lparr>point = (3, 4, 0), xaxis = (-4/5, 3/5, 0), yaxis = (3/5, 4/5, 0)\<rparr>,
                 xsize = 5, ysize = 10, zsize = 1\<rparr>"

section \<open>Construction\<close>

lemma call_keywords_geometry_simplified:
  "\<exists>m. call_keywords Element_params (''frame'' # ''geometry_simplified'' # rest) kws = Some (TypeError m)"
  by (auto simp: call_keywords_def Element_params_def split: list.splits)

lemma Frame_new_world_axes:
  "Frame_new c (1, 0, 0) (0, 1, 0) = Inr \<lparr>point = c, xaxis = (1, 0, 0), yaxis = (0, 1, 0)\<rparr>"
  by (simp add: Frame_new_def unitize_def length_vector_def)

lemma Beam_init_positive:
  assumes "0 < len" "0 < wid" "0 < hei"
  shows "\<exists>m. Beam_init fr len wid hei kwargs = Inl (TypeError m)"
  using assms call_keywords_geometry_simplified[of "[''geometry'']" "map fst kwargs"]
  by (auto simp: Beam_init_def Let_def)

lemma Block_init_mesh:
  assumes "vertices m \<noteq> []"
  shows "\<exists>msg. Block_init (MeshObject m) gs kwargs = Inl (TypeError msg)"
  using assms call_keywords_geometry_simplified[of "[''geometry'', ''index'']" "map fst kwargs"]
  by (auto simp: Block_init_def Let_def Mesh_centroid_def centroid_points_def Frame_new_world_axes)

lemma Beam_init_never_returns: "Beam_init fr len wid hei kwargs \<noteq> Inr s"
  using call_keywords_geometry_simplified[of "[''geometry'']" "map fst kwargs"]
  by (auto simp: Beam_init_def Let_def)

lemma Block_init_never_returns: "Block_init obj gs kwargs \<noteq> Inr s"
  using call_keywords_geometry_simplified[of "[''geometry'', ''index'']" "map fst kwargs"]
  by (auto simp: Block_init_def Let_def Mesh_centroid_def centroid_points_def Frame_new_world_axes
      split: pyobject.splits)

text \<open>
  C4.  A Beam whose length, width or height is zero or negative is refused with a
  ValueError: the constructor returns that error, whatever the frame and the keyword
  arguments are, and no box is built.
\<close>

theorem Beam_init_nonpositive_ValueError:
  assumes "len \<le> 0 \<or> wid \<le> 0 \<or> hei \<le> 0"
  shows "\<exists>msg. Beam_init fr len wid hei kwargs = Inl (ValueError msg)"
  using assms by (auto simp: Beam_init_def)

theorem Beam_init_nonpositive_ValueError_witness:
  "\<exists>msg. Beam_init worldXY 0 1 1 [] = Inl (ValueError msg)"
  using Beam_init_nonpositive_ValueError[of 0 1 1 worldXY "[]"] by simp

text \<open>
  C9.  With positive length, width and height \<^verbatim>\<open>Beam.__init__\<close> raises a TypeError, since
  \<^verbatim>\<open>Element.__init__\<close> takes no keyword \<^verbatim>\<open>geometry_simplified\<close>; \<^verbatim>\<open>Block.__init__\<close> with a mesh
  that has vertices raises a TypeError for the same reason.  Neither constructor returns
  an object for any arguments.
\<close>

theorem constructors_raise_TypeError:
  "(0 < len \<and> 0 < wid \<and> 0 < hei \<longrightarrow> (\<exists>msg. Beam_init fr len wid hei kwargs = Inl (TypeError msg)))
   \<and> (vertices m \<noteq> [] \<longrightarrow> (\<exists>msg. Block_init (MeshObject m) gs kwargs' = Inl (TypeError msg)))
   \<and> (\<forall>s. Beam_init fr len wid hei kwargs \<noteq> Inr s)
   \<and> (\<forall>s. Block_init obj gs kwargs' \<noteq> Inr s)"
  using Beam_init_positive Block_init_mesh Beam_init_never_returns Block_init_never_returns
  by blast

theorem constructors_raise_TypeError_witness:
  "(\<exists>msg. Beam_init worldXY 4 2 1 [(''name'', ''b'')] = Inl (TypeError msg))
   \<and> (\<exists>msg. Block_init (MeshObject example_mesh) None [] = Inl (TypeError msg))
   \<and> (\<forall>s. Beam_init worldXY 4 2 1 [(''name'', ''b'')] \<noteq> Inr s)
   \<and> (\<forall>s. Block_init (MeshObject example_mesh) None [] \<noteq> Inr s)"
  using constructors_raise_TypeError[of 4 2 1 worldXY "[(''name'', ''b'')]" example_mesh None "[]"
      "MeshObject example_mesh"]
  by (simp add: example_mesh_def)

section \<open>Block: dimensions and face polygons\<close>

lemma Block_compute_aabb_cache_irrelevant:
  "Block_compute_aabb i (s\<lparr>attr_aabb := c\<rparr>) = Block_compute_aabb i s"
  by (simp add: Block_compute_aabb_def Element_geometry_def Let_def split: option.splits sum.splits)

lemma Block_dimensions_eq:
  "Block_dimensions s =
     (case Block_compute_aabb 0 s of
        Inl e \<Rightarrow> Inl e
      | Inr (b, s1) \<Rightarrow> Inr ([width b, height b, depth b], s1))"
  by (auto simp: Block_dimensions_def Block_compute_aabb_def Element_geometry_def Block_aabb_def
      type_is_None_def Let_def split: option.splits sum.splits)

lemmas example_block_defs =
  example_block_def example_mesh_def Element_init_def element.extend_def block.fields_def

lemma example_block_aabb:
  "Block_compute_aabb i example_block =
     Inr (unit_box\<lparr>xsize := 1 + i, ysize := 1 + i, zsize := 1 + i\<rparr>,
          example_block\<lparr>attr_aabb := Some (unit_box\<lparr>xsize := 1 + i, ysize := 1 + i, zsize := 1 + i\<rparr>)\<rparr>)"
  by (simp add: Block_compute_aabb_def example_block_defs Element_geometry_def Mesh_aabb_def
      Box_from_points_def bounding_box_def min_list_r_def max_list_r_def Box_from_bounding_box_def
      centroid_points_def Frame_new_def unitize_def length_vector_def Let_def unit_box_def)

text \<open>
  C10.  Reading \<^verbatim>\<open>Block.dimensions\<close> always runs \<^verbatim>\<open>compute_aabb\<close> with inflation 0 and
  stores its box as the cached AABB: the result does not depend on what the cache held.
  On the example block an AABB computed with inflation 1/10 is replaced by the
  uninflated one, so the read changes the object.
\<close>

theorem Block_dimensions_overwrites_aabb:
  "Block_dimensions s =
     (case Block_compute_aabb 0 s of
        Inl e \<Rightarrow> Inl e
      | Inr (b, s1) \<Rightarrow> Inr ([width b, height b, depth b], s1))
   \<and> Block_dimensions (s\<lparr>attr_aabb := c\<rparr>) = Block_dimensions s
   \<and> Block_compute_aabb (1/10) example_block
         = Inr (inflated_box, example_block\<lparr>attr_aabb := Some inflated_box\<rparr>)
   \<and> Block_dimensions (example_block\<lparr>attr_aabb := Some inflated_box\<rparr>)
         = Inr ([1, 1, 1], example_block\<lparr>attr_aabb := Some unit_box\<rparr>)
   \<and> inflated_box \<noteq> unit_box"
proof (intro conjI)
  show "Block_dimensions s =
     (case Block_compute_aabb 0 s of
        Inl e \<Rightarrow> Inl e
      | Inr (b, s1) \<Rightarrow> Inr ([width b, height b, depth b], s1))"
    by (rule Block_dimensions_eq)
  show "Block_dimensions (s\<lparr>attr_aabb := c\<rparr>) = Block_dimensions s"
    by (simp add: Block_dimensions_eq Block_compute_aabb_cache_irrelevant)
  show "Block_compute_aabb (1/10) example_block
         = Inr (inflated_box, example_block\<lparr>attr_aabb := Some inflated_box\<rparr>)"
    by (simp add: example_block_aabb inflated_box_def)
  show "Block_dimensions (example_block\<lparr>attr_aabb := Some inflated_box\<rparr>)
         = Inr ([1, 1, 1], example_block\<lparr>attr_aabb := Some unit_box\<rparr>)"
    by (simp add: Block_dimensions_eq Block_compute_aabb_cache_irrelevant example_block_aabb
        width_def height_def depth_def) (simp add: unit_box_def)
  show "inflated_box \<noteq> unit_box"
    by (simp add: inflated_box_def unit_box_def)
qed

lemma Block_face_polygons_stored:
  "Block_face_polygons s =
     (case block_face_polygons s of
        None \<Rightarrow> Inl (AttributeError ''_face_polygons'')
      | Some ps \<Rightarrow> Inr (ps, s))"
  by (cases s) (auto simp: Block_face_polygons_def Block_compute_face_polygons_def split: option.splits list.splits)


section \<open>Vectors, frames and the corners of a box\<close>

lemma length_scale_unit:
  assumes "dot_vectors v v = 1" "0 < k"
  shows "length_vector (scale_vector v k) = k"
proof -
  obtain a b c where v: "v = (a, b, c)" by (cases v) auto
  have "dot_vectors (scale_vector v k) (scale_vector v k) = k\<^sup>2 * dot_vectors v v"
    by (simp add: v power2_eq_square algebra_simps)
  then have "length_vector (scale_vector v k) = sqrt (k\<^sup>2)"
    by (simp add: length_vector_def assms(1))
  with assms(2) show ?thesis by simp
qed

lemma unitize_scale_unit:
  assumes "dot_vectors v v = 1" "0 < k"
  shows "unitize (scale_vector v k) = Inr v"
proof -
  obtain a b c where v: "v = (a, b, c)" by (cases v) auto
  show ?thesis
    using assms(2) by (simp add: unitize_def length_scale_unit[OF assms] Let_def) (simp add: v)
qed

lemma unitize_unit:
  assumes "dot_vectors v v = 1"
  shows "unitize v = Inr v"
proof -
  obtain a b c where v: "v = (a, b, c)" by (cases v) auto
  show ?thesis
    using assms by (simp add: unitize_def length_vector_def Let_def) (simp add: v)
qed

lemma cross_unit:
  assumes "dot_vectors x x = 1" "dot_vectors y y = 1" "dot_vectors x y = 0"
  shows "dot_vectors (cross_vectors x y) (cross_vectors x y) = 1"
proof -
  obtain a b c where x: "x = (a, b, c)" by (cases x) auto
  obtain d e f where y: "y = (d, e, f)" by (cases y) auto
  have "dot_vectors (cross_vectors x y) (cross_vectors x y)
        = dot_vectors x x * dot_vectors y y - (dot_vectors x y)\<^sup>2"
    by (simp add: x y power2_eq_square algebra_simps)
  with assms show ?thesis by simp
qed

lemma triple_product:
  assumes "dot_vectors y y = 1" "dot_vectors x y = 0"
  shows "cross_vectors (cross_vectors y x) y = x"
proof -
  obtain a b c where x: "x = (a, b, c)" by (cases x) auto
  obtain d e f where y: "y = (d, e, f)" by (cases y) auto
  have "cross_vectors (cross_vectors y x) y
        = subtract_vectors (scale_vector x (dot_vectors y y)) (scale_vector y (dot_vectors x y))"
    by (simp add: x y algebra_simps)
  with assms show ?thesis by (simp add: x y)
qed

lemma dot_commute: "dot_vectors x y = dot_vectors y x"
  by (cases x, cases y) (simp add: algebra_simps)

lemma Frame_new_orthogonal:
  assumes "dot_vectors x x = 1" "dot_vectors y y = 1" "dot_vectors x y = 0" "0 < k" "0 < l"
  shows "Frame_new p (scale_vector y k) (scale_vector x l) = Inr \<lparr>point = p, xaxis = y, yaxis = x\<rparr>"
proof -
  have yx: "dot_vectors y x = 0" using assms(3) dot_commute by simp
  have "unitize (cross_vectors y x) = Inr (cross_vectors y x)"
    by (rule unitize_unit) (rule cross_unit[OF assms(2) assms(1) yx])
  then show ?thesis
    by (simp add: Frame_new_def unitize_scale_unit assms triple_product)
qed

lemma upt8: "[0..<8] = [0, 1, 2, 3, 4, 5, 6, 7]"
  by (simp add: upt_rec)

lemma corners_eq: "map (Box_corner g) [0..<8] = Box_points g"
  by (simp add: upt8 Box_corner_def Box_points_def Let_def)


lemma Box_points_edges:
  "subtract_vectors (Box_points g ! 1) (Box_points g ! 0) = scale_vector (yaxis (box_frame g)) (ysize g)"
  "subtract_vectors (Box_points g ! 3) (Box_points g ! 0) = scale_vector (xaxis (box_frame g)) (xsize g)"
  "subtract_vectors (Box_points g ! 4) (Box_points g ! 0) = scale_vector (zaxis (box_frame g)) (zsize g)"
proof -
  obtain p1 p2 p3 where p: "point (box_frame g) = (p1, p2, p3)" by (cases "point (box_frame g)") auto
  obtain x1 x2 x3 where x: "xaxis (box_frame g) = (x1, x2, x3)" by (cases "xaxis (box_frame g)") auto
  obtain y1 y2 y3 where y: "yaxis (box_frame g) = (y1, y2, y3)" by (cases "yaxis (box_frame g)") auto
  obtain z1 z2 z3 where z: "zaxis (box_frame g) = (z1, z2, z3)" by (cases "zaxis (box_frame g)") auto
  show "subtract_vectors (Box_points g ! 1) (Box_points g ! 0) = scale_vector (yaxis (box_frame g)) (ysize g)"
    by (simp add: Box_points_def Let_def p x y z)
  show "subtract_vectors (Box_points g ! 3) (Box_points g ! 0) = scale_vector (xaxis (box_frame g)) (xsize g)"
    by (simp add: Box_points_def Let_def p x y z)
  show "subtract_vectors (Box_points g ! 4) (Box_points g ! 0) = scale_vector (zaxis (box_frame g)) (zsize g)"
    by (simp add: Box_points_def Let_def p x y z)
qed

lemma Box_points_centroid: "centroid_points (Box_points g) = Inr (point (box_frame g))"
proof -
  obtain p1 p2 p3 where p: "point (box_frame g) = (p1, p2, p3)" by (cases "point (box_frame g)") auto
  obtain x1 x2 x3 where x: "xaxis (box_frame g) = (x1, x2, x3)" by (cases "xaxis (box_frame g)") auto
  obtain y1 y2 y3 where y: "yaxis (box_frame g) = (y1, y2, y3)" by (cases "yaxis (box_frame g)") auto
  obtain z1 z2 z3 where z: "zaxis (box_frame g) = (z1, z2, z3)" by (cases "zaxis (box_frame g)") auto
  show ?thesis
    by (simp add: centroid_points_def Box_points_def Let_def p x y z)
qed

lemma Box_from_bounding_box_corners:
  assumes "orthonormal (box_frame g)" "0 < xsize g" "0 < ysize g" "0 < zsize g"
  shows "Box_from_bounding_box (Box_points g) = Inr (corner_box g 0)"
proof -
  have xx: "dot_vectors (xaxis (box_frame g)) (xaxis (box_frame g)) = 1"
    and yy: "dot_vectors (yaxis (box_frame g)) (yaxis (box_frame g)) = 1"
    and xy: "dot_vectors (xaxis (box_frame g)) (yaxis (box_frame g)) = 0"
    using assms(1) by (simp_all add: orthonormal_def)
  have zz: "dot_vectors (zaxis (box_frame g)) (zaxis (box_frame g)) = 1"
    unfolding zaxis_def by (rule cross_unit[OF xx yy xy])
  have len: "length (Box_points g) = 8"
    by (simp add: Box_points_def Let_def)
  have e1: "subtract_vectors (Box_points g ! Suc 0) (Box_points g ! 0)
              = scale_vector (yaxis (box_frame g)) (ysize g)"
    using Box_points_edges(1)[of g] by simp
  show ?thesis
    using len
    by (simp add: Box_from_bounding_box_def Let_def e1 Box_points_edges Box_points_centroid
        Frame_new_orthogonal[OF xx yy xy assms(3) assms(2)]
        length_scale_unit[OF yy assms(3)] length_scale_unit[OF xx assms(2)]
        length_scale_unit[OF zz assms(4)] corner_box_def)
qed


section \<open>Inflation\<close>

lemma Beam_inflate_nonzero:
  assumes "xsize b \<noteq> 0" "ysize b \<noteq> 0" "zsize b \<noteq> 0"
  shows "Beam_inflate i b = Inr (b\<lparr>xsize := xsize b + i, ysize := ysize b + i, zsize := zsize b + i\<rparr>)"
  using assms by (simp add: Beam_inflate_def width_def depth_def height_def Let_def)

lemma Beam_inflate_zero:
  assumes "xsize b = 0 \<or> ysize b = 0 \<or> zsize b = 0"
  shows "Beam_inflate i b = Inl ZeroDivisionError"
  using assms by (auto simp: Beam_inflate_def width_def depth_def height_def Let_def)

lemma Beam_inflate_returns:
  assumes "Beam_inflate j b0 = Inr b"
  shows "Beam_inflate i b0 = Inr (b0\<lparr>xsize := xsize b0 + i, ysize := ysize b0 + i, zsize := zsize b0 + i\<rparr>)"
proof -
  have "xsize b0 \<noteq> 0 \<and> ysize b0 \<noteq> 0 \<and> zsize b0 \<noteq> 0"
    using assms Beam_inflate_zero[of b0 j] by auto
  then show ?thesis by (simp add: Beam_inflate_nonzero)
qed

lemma Beam_inflate_0: "Beam_inflate 0 b0 = Inr b \<Longrightarrow> b = b0"
  using Beam_inflate_returns[of 0 b0 b 0] by simp

lemma Beam_compute_aabb_value:
  assumes "attr_geometry s = Some g" "proper_box g"
  shows "Beam_compute_aabb i s = Inr (corner_box g i, s\<lparr>attr_aabb := Some (corner_box g i)\<rparr>)"
proof -
  have b0: "Box_from_bounding_box (map (Box_corner g) [0..<8]) = Inr (corner_box g 0)"
    using assms(2) by (simp add: corners_eq Box_from_bounding_box_corners proper_box_def)
  have "Beam_inflate i (corner_box g 0) = Inr (corner_box g i)"
    using assms(2) by (subst Beam_inflate_nonzero) (simp_all add: corner_box_def proper_box_def)
  with b0 show ?thesis
    by (simp add: Beam_compute_aabb_def Element_geometry_def assms(1))
qed



lemma Beam_compute_aabb_relative:
  assumes "Beam_compute_aabb 0 s = Inr (b0, s0)"
  shows "Beam_compute_aabb i s = Inr (grow i b0, s\<lparr>attr_aabb := Some (grow i b0)\<rparr>)"
proof -
  from assms obtain g b00 where g: "attr_geometry s = Some g"
    and b00: "Box_from_bounding_box (map (Box_corner g) [0..<8]) = Inr b00"
    and inf: "Beam_inflate 0 b00 = Inr b0"
    by (auto simp: Beam_compute_aabb_def Element_geometry_def split: option.splits sum.splits)
  from inf have "b0 = b00" by (rule Beam_inflate_0)
  with inf have "Beam_inflate i b00 = Inr (grow i b0)"
    using Beam_inflate_returns[of 0 b00 b0 i] by (simp add: grow_def)
  with g b00 show ?thesis
    by (simp add: Beam_compute_aabb_def Element_geometry_def)
qed

lemma Block_compute_aabb_relative:
  assumes "Block_compute_aabb 0 s = Inr (b0, s0)"
  shows "Block_compute_aabb i s = Inr (grow i b0, s\<lparr>attr_aabb := Some (grow i b0)\<rparr>)"
  using assms
  by (auto simp: Block_compute_aabb_def Let_def grow_def split: sum.splits)

lemma Block_compute_obb_relative:
  assumes "Block_compute_obb mesh_obb 0 s = Inr (b0, s0)"
  shows "Block_compute_obb mesh_obb i s = Inr (grow i b0, s\<lparr>attr_obb := Some (grow i b0)\<rparr>)"
  using assms
  by (auto simp: Block_compute_obb_def Let_def grow_def split: sum.splits)

lemma Beam_inflate_factor:
  assumes "Beam_inflate i b0 = Inr b"
  shows "xsize b = xsize b0 * ((xsize b0 + i) / xsize b0) \<and> ysize b = ysize b0 * ((ysize b0 + i) / ysize b0)
         \<and> zsize b = zsize b0 * ((zsize b0 + i) / zsize b0) \<and> b = grow i b0"
proof -
  have nz: "xsize b0 \<noteq> 0 \<and> ysize b0 \<noteq> 0 \<and> zsize b0 \<noteq> 0"
    using assms Beam_inflate_zero[of b0 i] by auto
  with assms have "b = grow i b0" by (simp add: Beam_inflate_nonzero grow_def)
  with nz show ?thesis by (simp add: grow_def)
qed


lemma Beam_face_polygons_six_quads:
  assumes "Beam_compute_face_polygons s = Inr ps"
  shows "length ps = 6 \<and> list_all (\<lambda>q. length q = 4) ps"
  using assms
  by (auto simp: Beam_compute_face_polygons_def Let_def quad_def split: sum.splits)


section \<open>Transformations\<close>

lemma transform_vector_dot:
  assumes "rigid T"
  shows "dot_vectors (transform_vector T v) (transform_vector T w) = dot_vectors v w"
proof -
  obtain a1 a2 a3 where r1: "row1 T = (a1, a2, a3)" by (cases "row1 T") auto
  obtain b1 b2 b3 where r2: "row2 T = (b1, b2, b3)" by (cases "row2 T") auto
  obtain c1 c2 c3 where r3: "row3 T = (c1, c2, c3)" by (cases "row3 T") auto
  obtain v1 v2 v3 where v: "v = (v1, v2, v3)" by (cases v) auto
  obtain w1 w2 w3 where w: "w = (w1, w2, w3)" by (cases w) auto
  have c: "a1 * a1 + b1 * b1 + c1 * c1 = 1" "a2 * a2 + b2 * b2 + c2 * c2 = 1"
    "a3 * a3 + b3 * b3 + c3 * c3 = 1" "a1 * a2 + b1 * b2 + c1 * c2 = 0"
    "a1 * a3 + b1 * b3 + c1 * c3 = 0" "a2 * a3 + b2 * b3 + c2 * c3 = 0"
    using assms by (simp_all add: rigid_def column_def r1 r2 r3)
  have "dot_vectors (transform_vector T v) (transform_vector T w)
      = v1 * w1 * (a1 * a1 + b1 * b1 + c1 * c1) + v2 * w2 * (a2 * a2 + b2 * b2 + c2 * c2)
        + v3 * w3 * (a3 * a3 + b3 * b3 + c3 * c3)
        + (v1 * w2 + v2 * w1) * (a1 * a2 + b1 * b2 + c1 * c2)
        + (v1 * w3 + v3 * w1) * (a1 * a3 + b1 * b3 + c1 * c3)
        + (v2 * w3 + v3 * w2) * (a2 * a3 + b2 * b3 + c2 * c3)"
    by (simp add: transform_vector_def r1 r2 r3 v w algebra_simps)
  also have "\<dots> = dot_vectors v w"
    by (simp add: c v w)
  finally show ?thesis .
qed

lemma Frame_transform_orthonormal:
  assumes "rigid T" "orthonormal f"
  shows "orthonormal (Frame_transform T f)"
  using assms(2) by (simp add: orthonormal_def Frame_transform_def transform_vector_dot[OF assms(1)])

lemma Box_transform_proper:
  assumes "rigid T" "proper_box g"
  shows "proper_box (Box_transform T g)"
  using assms by (simp add: proper_box_def Box_transform_def Frame_transform_orthonormal)

lemma inverse_vector:
  assumes "is_inverse Ti T"
  shows "transform_vector Ti (transform_vector T v) = v"
proof -
  obtain a1 a2 a3 where r1: "row1 T = (a1, a2, a3)" by (cases "row1 T") auto
  obtain b1 b2 b3 where r2: "row2 T = (b1, b2, b3)" by (cases "row2 T") auto
  obtain c1 c2 c3 where r3: "row3 T = (c1, c2, c3)" by (cases "row3 T") auto
  obtain d1 d2 d3 where i1: "row1 Ti = (d1, d2, d3)" by (cases "row1 Ti") auto
  obtain e1 e2 e3 where i2: "row2 Ti = (e1, e2, e3)" by (cases "row2 Ti") auto
  obtain f1 f2 f3 where i3: "row3 Ti = (f1, f2, f3)" by (cases "row3 Ti") auto
  obtain v1 v2 v3 where v: "v = (v1, v2, v3)" by (cases v) auto
  have c: "d1 * a1 + d2 * b1 + d3 * c1 = 1" "e1 * a1 + e2 * b1 + e3 * c1 = 0" "f1 * a1 + f2 * b1 + f3 * c1 = 0"
    "d1 * a2 + d2 * b2 + d3 * c2 = 0" "e1 * a2 + e2 * b2 + e3 * c2 = 1" "f1 * a2 + f2 * b2 + f3 * c2 = 0"
    "d1 * a3 + d2 * b3 + d3 * c3 = 0" "e1 * a3 + e2 * b3 + e3 * c3 = 0" "f1 * a3 + f2 * b3 + f3 * c3 = 1"
    using assms by (simp_all add: is_inverse_def column_def transform_vector_def r1 r2 r3 i1 i2 i3)
  have "transform_vector Ti (transform_vector T v)
      = (v1 * (d1 * a1 + d2 * b1 + d3 * c1) + v2 * (d1 * a2 + d2 * b2 + d3 * c2) + v3 * (d1 * a3 + d2 * b3 + d3 * c3),
         v1 * (e1 * a1 + e2 * b1 + e3 * c1) + v2 * (e1 * a2 + e2 * b2 + e3 * c2) + v3 * (e1 * a3 + e2 * b3 + e3 * c3),
         v1 * (f1 * a1 + f2 * b1 + f3 * c1) + v2 * (f1 * a2 + f2 * b2 + f3 * c2) + v3 * (f1 * a3 + f2 * b3 + f3 * c3))"
    by (simp add: transform_vector_def r1 r2 r3 i1 i2 i3 v algebra_simps)
  also have "\<dots> = v" by (simp add: c v)
  finally show ?thesis .
qed

lemma transform_vector_add:
  "transform_vector T (add_vectors v w) = add_vectors (transform_vector T v) (transform_vector T w)"
  by (cases v, cases w, cases "row1 T", cases "row2 T", cases "row3 T")
    (simp add: transform_vector_def algebra_simps)

lemma inverse_point:
  assumes "is_inverse Ti T"
  shows "transform_point Ti (transform_point T p) = p"
proof -
  have t: "transform_point Ti (translation T) = (0, 0, 0)"
    using assms by (simp add: is_inverse_def)
  have "transform_point Ti (transform_point T p)
      = add_vectors (transform_vector Ti (transform_vector T p)) (transform_point Ti (translation T))"
    by (cases "transform_vector Ti (transform_vector T p)", cases "transform_vector Ti (translation T)",
        cases "translation Ti")
      (simp add: transform_point_def transform_vector_add)
  then show ?thesis
    by (cases p) (simp add: inverse_vector[OF assms] t)
qed

lemma inverse_Frame: "is_inverse Ti T \<Longrightarrow> Frame_transform Ti (Frame_transform T f) = f"
  by (simp add: Frame_transform_def inverse_vector inverse_point)

lemma inverse_Box: "is_inverse Ti T \<Longrightarrow> Box_transform Ti (Box_transform T b) = b"
  by (simp add: Box_transform_def inverse_Frame)

lemma inverse_Mesh: "is_inverse Ti T \<Longrightarrow> Mesh_transform Ti (Mesh_transform T m) = m"
  by (simp add: Mesh_transform_def inverse_point comp_def)

lemma inverse_Polygon: "is_inverse Ti T \<Longrightarrow> Polygon_transform Ti (Polygon_transform T pg) = pg"
  by (simp add: Polygon_transform_def inverse_point comp_def)

lemma inverse_Polygons:
  "is_inverse Ti T \<Longrightarrow> map (Polygon_transform Ti) (map (Polygon_transform T) ps) = ps"
  by (simp add: inverse_Polygon comp_def)

lemma inverse_Line: "is_inverse Ti T \<Longrightarrow> Line_transform Ti (Line_transform T l) = l"
  by (simp add: Line_transform_def inverse_point)

lemma example_T_rigid: "rigid example_T"
  by (simp add: rigid_def example_T_def column_def)

lemma example_T_inverse: "is_inverse example_T_inverse example_T"
  by (simp add: is_inverse_def example_T_def example_T_inverse_def column_def transform_vector_def
      transform_point_def)


section \<open>Transforming a Beam\<close>

lemma Beam_compute_aabb_state:
  "Beam_compute_aabb i s = Inr (b, s') \<Longrightarrow> s' = s\<lparr>attr_aabb := Some b\<rparr>"
  by (auto simp: Beam_compute_aabb_def split: sum.splits)

lemma Beam_transform_without_aabb:
  assumes "attr_frame s = Some f" "beam_geometry_simplified s = Some l" "attr_geometry s = Some g"
    "attr_aabb s = None"
  shows "Beam_transform T s = Inr (Beam_moved T s)"
proof (cases "beam_face_polygons s")
  case None
  then show ?thesis
    using assms
    by (cases "attr_obb s"; cases "attr_collision_mesh s")
      (simp_all add: Beam_transform_def Beam_moved_def attr_def Element_geometry_def Let_def)
next
  case (Some ps)
  then show ?thesis
    using assms
    by (cases "attr_obb s"; cases "attr_collision_mesh s"; cases ps)
      (simp_all add: Beam_transform_def Beam_moved_def attr_def Element_geometry_def Let_def)
qed

lemma Beam_transform_with_aabb:
  assumes "attr_frame s = Some f" "beam_geometry_simplified s = Some l" "attr_geometry s = Some g"
    "attr_aabb s = Some a" "proper_box (Box_transform T g)"
  shows "Beam_transform T s = Inr ((Beam_moved T s)\<lparr>attr_aabb := Some (corner_box (Box_transform T g) 0)\<rparr>)"
proof -
  define s3 where "s3 = s\<lparr>attr_frame := Some (Frame_transform T f),
      beam_geometry_simplified := Some (Line_transform T l), attr_geometry := Some (Box_transform T g)\<rparr>"
  have "attr_geometry s3 = Some (Box_transform T g)" by (simp add: s3_def)
  from Beam_compute_aabb_value[OF this assms(5), of 0]
  have a: "Beam_compute_aabb 0 s3 = Inr (corner_box (Box_transform T g) 0,
             s3\<lparr>attr_aabb := Some (corner_box (Box_transform T g) 0)\<rparr>)" .
  show ?thesis
  proof (cases "beam_face_polygons s")
    case None
    then show ?thesis
      using assms(1-4) a
      by (cases "attr_obb s"; cases "attr_collision_mesh s")
        (simp_all add: Beam_transform_def Beam_moved_def attr_def Element_geometry_def Let_def s3_def)
  next
    case (Some ps)
    then show ?thesis
      using assms(1-4) a
      by (cases "attr_obb s"; cases "attr_collision_mesh s"; cases ps)
        (simp_all add: Beam_transform_def Beam_moved_def attr_def Element_geometry_def Let_def s3_def)
  qed
qed

lemma Beam_moved_back:
  assumes "is_inverse Ti T"
  shows "Beam_moved Ti (Beam_moved T s) = s"
  using assms
  by (simp add: Beam_moved_def option.map_comp comp_def inverse_Frame inverse_Box inverse_Mesh
      inverse_Line inverse_Polygon option.map_ident)


lemma Beam_moved_aabb:
  "Beam_moved T (s\<lparr>attr_aabb := x\<rparr>) = (Beam_moved T s)\<lparr>attr_aabb := x\<rparr>"
  by (simp add: Beam_moved_def)

lemma Beam_round_trip:
  assumes "rigid T" "is_inverse Ti T"
    "attr_frame s = Some f" "beam_geometry_simplified s = Some l" "attr_geometry s = Some g"
    "proper_box g"
  shows "\<exists>s1. Beam_transformed T s = Inr s1 \<and>
           Beam_transformed Ti s1 = Inr (s\<lparr>attr_aabb := map_option (\<lambda>b. corner_box g 0) (attr_aabb s)\<rparr>)"
proof (cases "attr_aabb s")
  case None
  have 1: "Beam_transform T s = Inr (Beam_moved T s)"
    by (rule Beam_transform_without_aabb[OF assms(3-5) None])
  have "Beam_transform Ti (Beam_moved T s) = Inr (Beam_moved Ti (Beam_moved T s))"
    by (rule Beam_transform_without_aabb) (simp_all add: Beam_moved_def assms(3-5) None)
  with 1 None show ?thesis
    by (simp add: Beam_transformed_def Data_copy_def Beam_moved_back[OF assms(2)])
next
  case (Some a)
  have p1: "proper_box (Box_transform T g)"
    by (rule Box_transform_proper[OF assms(1) assms(6)])
  define s1 where "s1 = (Beam_moved T s)\<lparr>attr_aabb := Some (corner_box (Box_transform T g) 0)\<rparr>"
  have 1: "Beam_transform T s = Inr s1"
    unfolding s1_def by (rule Beam_transform_with_aabb[OF assms(3-5) Some p1])
  have gback: "Box_transform Ti (Box_transform T g) = g"
    by (rule inverse_Box[OF assms(2)])
  have "Beam_transform Ti s1
          = Inr ((Beam_moved Ti s1)\<lparr>attr_aabb := Some (corner_box (Box_transform Ti (Box_transform T g)) 0)\<rparr>)"
    by (rule Beam_transform_with_aabb[where a = "corner_box (Box_transform T g) 0"])
      (simp_all add: s1_def Beam_moved_def assms(3-6) gback)
  then have "Beam_transform Ti s1 = Inr (s\<lparr>attr_aabb := Some (corner_box g 0)\<rparr>)"
    by (simp add: gback s1_def Beam_moved_aabb Beam_moved_back[OF assms(2)])
  with 1 Some show ?thesis
    by (simp add: Beam_transformed_def Data_copy_def)
qed

section \<open>Transforming a Block\<close>

lemma Block_compute_aabb_geometry:
  assumes "Block_compute_aabb i s = Inr (b, u)" "attr_geometry s' = attr_geometry s"
  shows "Block_compute_aabb i s' = Inr (b, s'\<lparr>attr_aabb := Some b\<rparr>)"
  using assms
  by (auto simp: Block_compute_aabb_def Element_geometry_def Let_def split: option.splits sum.splits)

lemma Block_transform_without_aabb:
  assumes "attr_frame s = Some f" "block_geometry_simplified s = Some c" "attr_geometry s = Some g"
    "block_face_polygons s = Some ps" "attr_collision_mesh s = None" "attr_aabb s = None"
  shows "Block_transform (Suc d) T s = Inr (Block_moved T s)"
  using assms
  by (cases "attr_obb s"; cases ps)
    (simp_all add: Block_moved_def attr_def Element_geometry_def Let_def)

lemma Block_transform_with_aabb:
  assumes "attr_frame s = Some f" "block_geometry_simplified s = Some c" "attr_geometry s = Some g"
    "block_face_polygons s = Some ps" "attr_collision_mesh s = None" "attr_aabb s = Some a"
    "Block_compute_aabb 0 (Block_moved T s) = Inr (b, u)"
  shows "Block_transform (Suc d) T s = Inr ((Block_moved T s)\<lparr>attr_aabb := Some b\<rparr>)"
proof -
  define s3 where "s3 = s\<lparr>attr_frame := Some (Frame_transform T f),
      block_geometry_simplified := Some (transform_point T c), attr_geometry := Some (Mesh_transform T g)\<rparr>"
  have "attr_geometry s3 = attr_geometry (Block_moved T s)"
    by (simp add: s3_def Block_moved_def assms(3))
  from Block_compute_aabb_geometry[OF assms(7) this]
  have a: "Block_compute_aabb 0 s3 = Inr (b, s3\<lparr>attr_aabb := Some b\<rparr>)" .
  show ?thesis
    using assms(1-6) a
    by (cases "attr_obb s"; cases ps)
      (simp_all add: Block_moved_def attr_def Element_geometry_def Let_def s3_def)
qed

lemma Block_moved_back:
  assumes "is_inverse Ti T"
  shows "Block_moved Ti (Block_moved T s) = s"
  using assms
  by (simp add: Block_moved_def option.map_comp comp_def inverse_Frame inverse_Box inverse_Mesh
      inverse_point inverse_Polygon option.map_ident)

lemma Block_moved_aabb:
  "Block_moved T (s\<lparr>attr_aabb := x\<rparr>) = (Block_moved T s)\<lparr>attr_aabb := x\<rparr>"
  by (simp add: Block_moved_def)

lemma Block_round_trip:
  assumes "is_inverse Ti T"
    "attr_frame s = Some f" "block_geometry_simplified s = Some c" "attr_geometry s = Some g"
    "block_face_polygons s = Some ps" "attr_collision_mesh s = None"
    "Block_compute_aabb 0 s = Inr (b, u)" "Block_compute_aabb 0 (Block_moved T s) = Inr (b1, u1)"
  shows "\<exists>s1. Block_transformed (Suc d) T s = Inr s1 \<and>
           Block_transformed (Suc d') Ti s1 = Inr (s\<lparr>attr_aabb := map_option (\<lambda>a. b) (attr_aabb s)\<rparr>)"
proof (cases "attr_aabb s")
  case None
  have 1: "Block_transform (Suc d) T s = Inr (Block_moved T s)"
    by (rule Block_transform_without_aabb[OF assms(2-6) None])
  have "Block_transform (Suc d') Ti (Block_moved T s) = Inr (Block_moved Ti (Block_moved T s))"
    by (rule Block_transform_without_aabb) (simp_all add: Block_moved_def assms(2-6) None)
  with 1 None show ?thesis
    by (simp add: Block_transformed_def Data_copy_def Block_moved_back[OF assms(1)])
next
  case (Some a)
  define s1 where "s1 = (Block_moved T s)\<lparr>attr_aabb := Some b1\<rparr>"
  have 1: "Block_transform (Suc d) T s = Inr s1"
    unfolding s1_def by (rule Block_transform_with_aabb[OF assms(2-6) Some assms(8)])
  have "attr_geometry (Block_moved Ti s1) = attr_geometry s"
    by (simp add: s1_def Block_moved_aabb Block_moved_back[OF assms(1)])
  from Block_compute_aabb_geometry[OF assms(7) this]
  have "Block_compute_aabb 0 (Block_moved Ti s1) = Inr (b, (Block_moved Ti s1)\<lparr>attr_aabb := Some b\<rparr>)" .
  then have "Block_transform (Suc d') Ti s1 = Inr ((Block_moved Ti s1)\<lparr>attr_aabb := Some b\<rparr>)"
    by (rule Block_transform_with_aabb[where a = b1, rotated 6])
      (simp_all add: s1_def Block_moved_def assms(2-6))
  then have "Block_transform (Suc d') Ti s1 = Inr (s\<lparr>attr_aabb := Some b\<rparr>)"
    by (simp add: s1_def Block_moved_aabb Block_moved_back[OF assms(1)])
  with 1 Some show ?thesis
    by (simp add: Block_transformed_def Data_copy_def)
qed



section \<open>Block.transform with a cached collision mesh\<close>

lemma Block_compute_aabb_keeps:
  "Block_compute_aabb i s = Inr (b, s') \<Longrightarrow> s' = s\<lparr>attr_aabb := Some b\<rparr>"
  by (auto simp: Block_compute_aabb_def Let_def split: sum.splits)

lemma Block_compute_aabb_collision_mesh:
  "map_sum id snd (Block_compute_aabb i s) = Inr s' \<Longrightarrow> attr_collision_mesh s' = attr_collision_mesh s"
  by (cases "Block_compute_aabb i s") (auto dest!: Block_compute_aabb_keeps)

lemma Block_transform_Suc_returns:
  assumes "Block_transform (Suc n) T s = Inr r" "attr_collision_mesh s \<noteq> None"
  shows "\<exists>s5 s6. attr_collision_mesh s5 \<noteq> None \<and> Block_transform n T s5 = Inr s6"
proof -
  from assms(1) obtain fr gs g s4 where
    s4: "(if attr_aabb (s\<lparr>attr_frame := Some (Frame_transform T fr),
                          block_geometry_simplified := Some (transform_point T gs),
                          attr_geometry := Some (Mesh_transform T g)\<rparr>) \<noteq> None
          then map_sum id snd (Block_compute_aabb 0 (s\<lparr>attr_frame := Some (Frame_transform T fr),
                          block_geometry_simplified := Some (transform_point T gs),
                          attr_geometry := Some (Mesh_transform T g)\<rparr>))
          else Inr (s\<lparr>attr_frame := Some (Frame_transform T fr),
                          block_geometry_simplified := Some (transform_point T gs),
                          attr_geometry := Some (Mesh_transform T g)\<rparr>)) = Inr s4"
    and rest: "\<exists>s6. (let s5 = (case attr_obb s4 of None \<Rightarrow> s4
                         | Some b \<Rightarrow> s4\<lparr>attr_obb := Some (Box_transform T b)\<rparr>)
              in (if attr_collision_mesh s5 \<noteq> None then Block_transform n T s5 else Inr s5)) = Inr s6"
    by (simp add: Let_def split: sum.splits)
  from s4 have cm4: "attr_collision_mesh s4 = attr_collision_mesh s"
    by (auto split: if_splits dest: Block_compute_aabb_collision_mesh)
  define s5 where "s5 = (case attr_obb s4 of None \<Rightarrow> s4
                         | Some b \<Rightarrow> s4\<lparr>attr_obb := Some (Box_transform T b)\<rparr>)"
  have cm5: "attr_collision_mesh s5 = attr_collision_mesh s"
    using cm4 by (simp add: s5_def split: option.splits)
  from rest have "\<exists>s6. (if attr_collision_mesh s5 \<noteq> None then Block_transform n T s5 else Inr s5) = Inr s6"
    unfolding s5_def Let_def .
  then obtain s6 where "(if attr_collision_mesh s5 \<noteq> None then Block_transform n T s5 else Inr s5) = Inr s6"
    by blast
  with cm5 assms(2) show ?thesis
    by (intro exI[of _ s5] exI[of _ s6]) (auto split: if_splits)
qed

lemma Block_transform_raises:
  "attr_collision_mesh s \<noteq> None \<Longrightarrow> \<exists>e. Block_transform n T s = Inl e"
proof (induction n arbitrary: s)
  case 0
  then show ?case by simp
next
  case (Suc n)
  show ?case
  proof (cases "Block_transform (Suc n) T s")
    case (Inl e)
    then show ?thesis by blast
  next
    case (Inr r)
    from Block_transform_Suc_returns[OF Inr Suc.prems] Suc.IH show ?thesis by fastforce
  qed
qed

lemma Block_transform_RecursionError:
  assumes "attr_collision_mesh s \<noteq> None" "attr_frame s \<noteq> None" "block_geometry_simplified s \<noteq> None"
    "attr_geometry s \<noteq> None" "attr_aabb s = None"
  shows "Block_transform n T s = Inl RecursionError"
  using assms
proof (induction n arbitrary: s)
  case 0
  then show ?case by simp
next
  case (Suc n)
  from Suc.prems obtain m fr gs g where s: "attr_collision_mesh s = Some m" "attr_frame s = Some fr"
    "block_geometry_simplified s = Some gs" "attr_geometry s = Some g"
    by auto
  define s3 where "s3 = s\<lparr>attr_frame := Some (Frame_transform T fr),
                          block_geometry_simplified := Some (transform_point T gs),
                          attr_geometry := Some (Mesh_transform T g)\<rparr>"
  define s5 where "s5 = (case attr_obb s3 of None \<Rightarrow> s3
                         | Some b \<Rightarrow> s3\<lparr>attr_obb := Some (Box_transform T b)\<rparr>)"
  have "attr_collision_mesh s5 \<noteq> None" "attr_frame s5 \<noteq> None" "block_geometry_simplified s5 \<noteq> None"
    "attr_geometry s5 \<noteq> None" "attr_aabb s5 = None"
    using s Suc.prems(5) by (simp_all add: s5_def s3_def split: option.splits) (metis prod_cases3)
  then have rec: "Block_transform n T s5 = Inl RecursionError"
    by (rule Suc.IH)
  have "Block_transform (Suc n) T s =
          (case Block_transform n T s5 of
             Inl err \<Rightarrow> Inl err
           | Inr s6 \<Rightarrow>
               (case block_face_polygons s6 of
                  None \<Rightarrow> Inl (AttributeError ''_face_polygons'')
                | Some [] \<Rightarrow> Inr s6
                | Some (p # ps) \<Rightarrow>
                    Inr (s6\<lparr>block_face_polygons := Some (map (Polygon_transform T) (p # ps))\<rparr>)))"
    using s Suc.prems(5)
    by (simp add: Let_def attr_def Element_geometry_def s5_def s3_def split: option.splits)
  with rec show ?case by simp
qed


section \<open>Scripts: an element is built, then used\<close>

lemma and_then_Beam_init: "and_then (Beam_init fr len wid hei kwargs) m \<noteq> Inr r"
  using Beam_init_never_returns[of fr len wid hei kwargs]
  by (cases "Beam_init fr len wid hei kwargs") (auto simp: and_then_def)

lemma and_then_Block_init: "and_then (Block_init obj gs kwargs) m \<noteq> Inr r"
  using Block_init_never_returns[of obj gs kwargs]
  by (cases "Block_init obj gs kwargs") (auto simp: and_then_def)

lemma and_then_Beam_init_TypeError:
  assumes "0 < len" "0 < wid" "0 < hei"
  shows "\<exists>msg. and_then (Beam_init fr len wid hei kwargs) m = Inl (TypeError msg)"
  using Beam_init_positive[OF assms, of fr kwargs] by (auto simp: and_then_def)

lemma and_then_Block_init_TypeError:
  assumes "vertices mesh0 \<noteq> []"
  shows "\<exists>msg. and_then (Block_init (MeshObject mesh0) gs kwargs) m = Inl (TypeError msg)"
  using Block_init_mesh[OF assms, of gs kwargs] by (auto simp: and_then_def)

lemma Block_transform_without_geometry_simplified:
  "Block_transform d T (s\<lparr>block_geometry_simplified := None\<rparr>) \<noteq> Inr r"
  by (cases d) (auto simp: attr_def Let_def split: option.splits)

lemma Beam_transform_without_geometry_simplified:
  "Beam_transform T (s\<lparr>beam_geometry_simplified := None\<rparr>) \<noteq> Inr r"
  by (auto simp: Beam_transform_def attr_def Let_def split: option.splits)

lemma Block_transform_with_collision_mesh:
  "Block_transform d T (s\<lparr>attr_collision_mesh := Some m\<rparr>) \<noteq> Inr r"
  using Block_transform_raises[of "s\<lparr>attr_collision_mesh := Some m\<rparr>" d T] by auto

text \<open>
  C1 (the code does otherwise).  No call of \<^verbatim>\<open>transform\<close> completes.  \<^verbatim>\<open>Block.__init__\<close> and
  \<^verbatim>\<open>Beam.__init__\<close> raise for all arguments, so a script that builds an element and
  transforms it ends in the constructor's TypeError.  On any object whose
  \<^verbatim>\<open>geometry_simplified\<close> is missing, and no statement of the source assigns it, both
  \<^verbatim>\<open>transform\<close> methods raise.  On any block with a cached collision mesh
  \<^verbatim>\<open>Block.transform\<close> never returns, whatever the recursion limit; with frame, simplified
  geometry and geometry set and no cached AABB the exception is the RecursionError of the
  method calling itself.
\<close>

theorem transform_never_completes:
  "(\<forall>r. and_then (Block_init obj gs kwargs) (Block_transform d T) \<noteq> Inr r)
   \<and> (\<forall>r. and_then (Beam_init fr len wid hei kwargs') (Beam_transform T) \<noteq> Inr r)
   \<and> (\<exists>msg. and_then (Block_init (MeshObject example_mesh) None []) (Block_transform 1000 example_T)
              = Inl (TypeError msg))
   \<and> (\<forall>r. Block_transform d T (s\<lparr>block_geometry_simplified := None\<rparr>) \<noteq> Inr r)
   \<and> (\<forall>r. Beam_transform T (b\<lparr>beam_geometry_simplified := None\<rparr>) \<noteq> Inr r)
   \<and> (\<forall>r. Block_transform d T (s\<lparr>attr_collision_mesh := Some m\<rparr>) \<noteq> Inr r)
   \<and> (\<forall>n. Block_transform n T
          (s\<lparr>attr_frame := Some f, block_geometry_simplified := Some c, attr_geometry := Some g,
             attr_aabb := None, attr_collision_mesh := Some m\<rparr>) = Inl RecursionError)"
proof (intro conjI allI)
  show "\<exists>msg. and_then (Block_init (MeshObject example_mesh) None []) (Block_transform 1000 example_T)
              = Inl (TypeError msg)"
    by (rule and_then_Block_init_TypeError) (simp add: example_mesh_def)
  show "Block_transform n T
          (s\<lparr>attr_frame := Some f, block_geometry_simplified := Some c, attr_geometry := Some g,
             attr_aabb := None, attr_collision_mesh := Some m\<rparr>) = Inl RecursionError" for n
    by (rule Block_transform_RecursionError) simp_all
qed (rule and_then_Block_init and_then_Beam_init Block_transform_without_geometry_simplified
    Beam_transform_without_geometry_simplified Block_transform_with_collision_mesh)+

text \<open>
  C7 (the code does otherwise).  No call of \<^verbatim>\<open>face_polygons\<close> yields the face loops of the
  mesh.  A script that builds a block and reads the property ends in the constructor's
  TypeError.  The property itself returns the stored attribute whatever the mesh is:
  \<^verbatim>\<open>_compute_face_polygons\<close> returns the attribute when it exists, and \<^verbatim>\<open>__init__\<close> stores
  the empty list in it, so for a block with the tetrahedron of four faces as geometry the
  property is the empty list.
\<close>

theorem Block_face_polygons_never_computed:
  "(\<forall>r. and_then (Block_init obj gs kwargs) Block_face_polygons \<noteq> Inr r)
   \<and> (\<exists>msg. and_then (Block_init (MeshObject example_mesh) None []) Block_face_polygons
              = Inl (TypeError msg))
   \<and> Block_face_polygons (s\<lparr>block_face_polygons := Some []\<rparr>)
        = Inr ([], s\<lparr>block_face_polygons := Some []\<rparr>)
   \<and> Block_face_polygons s =
        (case block_face_polygons s of
           None \<Rightarrow> Inl (AttributeError ''_face_polygons'')
         | Some ps \<Rightarrow> Inr (ps, s))
   \<and> Block_face_polygons (s\<lparr>attr_geometry := Some example_mesh, block_face_polygons := Some []\<rparr>)
        = Inr ([], s\<lparr>attr_geometry := Some example_mesh, block_face_polygons := Some []\<rparr>)
   \<and> length (faces example_mesh) = 4"
proof (intro conjI allI)
  show "\<exists>msg. and_then (Block_init (MeshObject example_mesh) None []) Block_face_polygons
              = Inl (TypeError msg)"
    by (rule and_then_Block_init_TypeError) (simp add: example_mesh_def)
  show "Block_face_polygons s =
        (case block_face_polygons s of
           None \<Rightarrow> Inl (AttributeError ''_face_polygons'')
         | Some ps \<Rightarrow> Inr (ps, s))"
    by (rule Block_face_polygons_stored)
qed (simp_all add: and_then_Block_init Block_face_polygons_stored example_mesh_def)

section \<open>Beam: face polygons and bounding box\<close>

lemma example_beam_box:
  "create_box worldXY 2 1 4 =
     \<lparr>box_frame = \<lparr>point = (2, 0, 0), xaxis = (1, 0, 0), yaxis = (0, 1, 0)\<rparr>,
      xsize = 4, ysize = 2, zsize = 1\<rparr>"
  by (simp add: create_box_def worldXY_def)

lemma create_box_proper:
  assumes "orthonormal fr" "0 < len" "0 < wid" "0 < hei"
  shows "proper_box (create_box fr wid hei len)"
  using assms by (simp add: proper_box_def create_box_def orthonormal_def Let_def)


lemma example_beam_box_points:
  "Box_points (create_box worldXY 2 1 4) =
     [(0, -1, -1/2), (0, 1, -1/2), (4, 1, -1/2), (4, -1, -1/2),
      (0, -1, 1/2), (4, -1, 1/2), (4, 1, 1/2), (0, 1, 1/2)]"
  by (simp add: Box_points_def example_beam_box zaxis_def Let_def)

lemma example_beam_dimensions:
  "Beam_dimensions (s\<lparr>attr_frame := Some worldXY, attr_geometry := Some (create_box worldXY 2 1 4)\<rparr>)
     = Inr [4, 1, 2]"
  by (simp add: Beam_dimensions_def Element_geometry_def example_beam_box width_def height_def depth_def)

lemma example_beam_mid_point:
  "Beam_mid_point (s\<lparr>attr_frame := Some worldXY, attr_geometry := Some (create_box worldXY 2 1 4)\<rparr>)
     = Inr (1, 0, 0)"
  by (simp add: Beam_mid_point_def example_beam_dimensions attr_def) (simp add: worldXY_def)

lemma example_beam_face_polygons:
  "Beam_compute_face_polygons
     (s\<lparr>attr_frame := Some worldXY, attr_geometry := Some (create_box worldXY 2 1 4)\<rparr>)
     = Inr example_beam_quads"
  by (simp add: Beam_compute_face_polygons_def example_beam_dimensions example_beam_mid_point attr_def)
    (simp add: worldXY_def zaxis_def quad_def Let_def example_beam_quads_def)

text \<open>
  C6 (the code does otherwise).  A script that builds a beam and computes its face
  polygons ends in the constructor's TypeError.  On any beam object whose frame is the
  world frame and whose geometry is the box \<^verbatim>\<open>_create_box\<close> builds for length 4, width 2
  and height 1, \<^verbatim>\<open>compute_face_polygons\<close> returns six quadrilaterals none of whose vertices
  is a corner of the box: they span 2 along the x axis and 4 along the y axis, the box 4
  and 2.  The vertex (2, 2, 1/2) lies outside the box, and the mid point the method
  starts from is (1, 0, 0), not the centre (2, 0, 0) of the box.
\<close>

theorem face_polygons_miss_the_box:
  "(\<forall>r. and_then (Beam_init fr len wid hei kwargs) Beam_compute_face_polygons \<noteq> Inr r)
   \<and> (\<exists>msg. and_then (Beam_init worldXY 4 2 1 []) Beam_compute_face_polygons = Inl (TypeError msg))
   \<and> Beam_compute_face_polygons
        (s\<lparr>attr_frame := Some worldXY, attr_geometry := Some (create_box worldXY 2 1 4)\<rparr>)
        = Inr example_beam_quads
   \<and> Box_points (create_box worldXY 2 1 4) =
       [(0, -1, -1/2), (0, 1, -1/2), (4, 1, -1/2), (4, -1, -1/2),
        (0, -1, 1/2), (4, -1, 1/2), (4, 1, 1/2), (0, 1, 1/2)]
   \<and> list_all (\<lambda>q. list_all (\<lambda>v. v \<notin> set (Box_points (create_box worldXY 2 1 4))) q) example_beam_quads
   \<and> \<not> inside_box (create_box worldXY 2 1 4) (2, 2, 1/2)
   \<and> Beam_mid_point (s\<lparr>attr_frame := Some worldXY, attr_geometry := Some (create_box worldXY 2 1 4)\<rparr>)
        = Inr (1, 0, 0)
   \<and> point (box_frame (create_box worldXY 2 1 4)) = (2, 0, 0)"
proof (intro conjI allI)
  show "\<exists>msg. and_then (Beam_init worldXY 4 2 1 []) Beam_compute_face_polygons = Inl (TypeError msg)"
    by (rule and_then_Beam_init_TypeError) simp_all
  show "list_all (\<lambda>q. list_all (\<lambda>v. v \<notin> set (Box_points (create_box worldXY 2 1 4))) q) example_beam_quads"
    by (simp add: example_beam_box_points example_beam_quads_def)
  show "\<not> inside_box (create_box worldXY 2 1 4) (2, 2, 1/2)"
    by (simp add: inside_box_def example_beam_box zaxis_def)
  show "point (box_frame (create_box worldXY 2 1 4)) = (2, 0, 0)"
    by (simp add: example_beam_box)
qed (rule and_then_Beam_init example_beam_face_polygons example_beam_box_points example_beam_mid_point)+

lemma turned_beam_box:
  "create_box turned_frame 5 1 10 =
     \<lparr>box_frame = \<lparr>point = (3, 4, 0), xaxis = (3/5, 4/5, 0), yaxis = (-4/5, 3/5, 0)\<rparr>,
      xsize = 10, ysize = 5, zsize = 1\<rparr>"
  by (simp add: create_box_def turned_frame_def)

lemma turned_beam_box_proper: "proper_box (create_box turned_frame 5 1 10)"
  by (simp add: turned_beam_box proper_box_def orthonormal_def power2_eq_square)

lemma turned_box_eq: "corner_box (create_box turned_frame 5 1 10) 0 = turned_box"
  by (simp add: corner_box_def turned_beam_box turned_box_def)

text \<open>
  C3 (the code does otherwise).  A script that builds a beam and computes its AABB ends
  in the constructor's TypeError.  On any beam object whose geometry is the box
  \<^verbatim>\<open>_create_box\<close> builds on the turned frame, \<^verbatim>\<open>compute_aabb\<close> returns that box read back
  from its corners: a box whose x axis is (-4/5, 3/5, 0), so its edges are not parallel
  to the world axes.
\<close>

theorem aabb_of_turned_beam_not_axis_aligned:
  "(\<forall>r. and_then (Beam_init fr len wid hei kwargs) (Beam_compute_aabb i) \<noteq> Inr r)
   \<and> (\<exists>msg. and_then (Beam_init turned_frame 10 5 1 []) (Beam_compute_aabb 0) = Inl (TypeError msg))
   \<and> Beam_compute_aabb 0 (s\<lparr>attr_geometry := Some (create_box turned_frame 5 1 10)\<rparr>)
        = Inr (turned_box,
               s\<lparr>attr_geometry := Some (create_box turned_frame 5 1 10), attr_aabb := Some turned_box\<rparr>)
   \<and> xaxis (box_frame turned_box) = (-4/5, 3/5, 0)
   \<and> \<not> axis_aligned turned_box"
proof (intro conjI allI)
  show "\<exists>msg. and_then (Beam_init turned_frame 10 5 1 []) (Beam_compute_aabb 0) = Inl (TypeError msg)"
    by (rule and_then_Beam_init_TypeError) simp_all
  have "attr_geometry (s\<lparr>attr_geometry := Some (create_box turned_frame 5 1 10)\<rparr>)
          = Some (create_box turned_frame 5 1 10)"
    by simp
  from Beam_compute_aabb_value[OF this turned_beam_box_proper, of 0]
  show "Beam_compute_aabb 0 (s\<lparr>attr_geometry := Some (create_box turned_frame 5 1 10)\<rparr>)
        = Inr (turned_box,
               s\<lparr>attr_geometry := Some (create_box turned_frame 5 1 10), attr_aabb := Some turned_box\<rparr>)"
    by (simp add: turned_box_eq)
  show "xaxis (box_frame turned_box) = (-4/5, 3/5, 0)"
    by (simp add: turned_box_def)
  show "\<not> axis_aligned turned_box"
    by (simp add: axis_aligned_def world_axis_def turned_box_def)
qed (rule and_then_Beam_init)

lemma Beam_transformed_without_geometry_simplified:
  "Beam_transformed T (s\<lparr>beam_geometry_simplified := None\<rparr>) \<noteq> Inr r"
  by (simp add: Beam_transformed_def Data_copy_def Beam_transform_without_geometry_simplified)

lemma Block_transformed_without_geometry_simplified:
  "Block_transformed d T (s\<lparr>block_geometry_simplified := None\<rparr>) \<noteq> Inr r"
  by (simp add: Block_transformed_def Data_copy_def Block_transform_without_geometry_simplified)

lemma Block_transformed_with_collision_mesh:
  "Block_transformed d T (s\<lparr>attr_collision_mesh := Some m\<rparr>) \<noteq> Inr r"
  by (simp add: Block_transformed_def Data_copy_def Block_transform_with_collision_mesh)

text \<open>
  C2 (the code does otherwise).  No call of \<^verbatim>\<open>transformed\<close> returns an element.  A script
  that builds a beam or a block and asks for a transformed copy ends in the constructor's
  TypeError.  On any object whose \<^verbatim>\<open>geometry_simplified\<close> is missing, and no statement of
  the source assigns it, \<^verbatim>\<open>transformed\<close> raises in \<^verbatim>\<open>transform\<close>; on any block with a
  cached collision mesh it never returns.
\<close>

theorem transformed_never_returns:
  "(\<forall>r. and_then (Beam_init fr len wid hei kwargs) (Beam_transformed T) \<noteq> Inr r)
   \<and> (\<forall>r. and_then (Block_init obj gs kwargs') (Block_transformed d T) \<noteq> Inr r)
   \<and> (\<exists>msg. and_then (Beam_init worldXY 4 2 1 []) (Beam_transformed example_T) = Inl (TypeError msg))
   \<and> (\<exists>msg. and_then (Block_init (MeshObject example_mesh) None []) (Block_transformed 1000 example_T)
              = Inl (TypeError msg))
   \<and> (\<forall>r. Beam_transformed T (b\<lparr>beam_geometry_simplified := None\<rparr>) \<noteq> Inr r)
   \<and> (\<forall>r. Block_transformed d T (s\<lparr>block_geometry_simplified := None\<rparr>) \<noteq> Inr r)
   \<and> (\<forall>r. Block_transformed d T (s\<lparr>attr_collision_mesh := Some m\<rparr>) \<noteq> Inr r)"
proof (intro conjI allI)
  show "\<exists>msg. and_then (Beam_init worldXY 4 2 1 []) (Beam_transformed example_T) = Inl (TypeError msg)"
    by (rule and_then_Beam_init_TypeError) simp_all
  show "\<exists>msg. and_then (Block_init (MeshObject example_mesh) None []) (Block_transformed 1000 example_T)
              = Inl (TypeError msg)"
    by (rule and_then_Block_init_TypeError) (simp add: example_mesh_def)
qed (rule and_then_Beam_init and_then_Block_init Beam_transformed_without_geometry_simplified
    Block_transformed_without_geometry_simplified Block_transformed_with_collision_mesh)+

section \<open>Inflation by a positive margin\<close>



lemma grow_corner_box: "grow i (corner_box g 0) = corner_box g i"
  by (simp add: grow_def corner_box_def)







section \<open>The corners and the sides of a box\<close>

lemma local_point_combination:
  assumes "orthonormal (box_frame g)"
  shows "local_point g (add_vectors (point (box_frame g))
            (add_vectors (add_vectors (scale_vector (xaxis (box_frame g)) a)
                                      (scale_vector (yaxis (box_frame g)) b))
                         (scale_vector (zaxis (box_frame g)) c))) = (a, b, c)"
proof -
  obtain p1 p2 p3 where p: "point (box_frame g) = (p1, p2, p3)" by (cases "point (box_frame g)") auto
  obtain x1 x2 x3 where x: "xaxis (box_frame g) = (x1, x2, x3)" by (cases "xaxis (box_frame g)") auto
  obtain y1 y2 y3 where y: "yaxis (box_frame g) = (y1, y2, y3)" by (cases "yaxis (box_frame g)") auto
  have xx: "x1 * x1 + x2 * x2 + x3 * x3 = 1" and yy: "y1 * y1 + y2 * y2 + y3 * y3 = 1"
    and xy: "x1 * y1 + x2 * y2 + x3 * y3 = 0"
    using assms by (simp_all add: orthonormal_def x y)
  have zz: "dot_vectors (zaxis (box_frame g)) (zaxis (box_frame g)) = 1"
    unfolding zaxis_def using assms by (intro cross_unit) (simp_all add: orthonormal_def)
  define v where "v = add_vectors (point (box_frame g))
            (add_vectors (add_vectors (scale_vector (xaxis (box_frame g)) a)
                                      (scale_vector (yaxis (box_frame g)) b))
                         (scale_vector (zaxis (box_frame g)) c))"
  have 1: "dot_vectors (subtract_vectors v (point (box_frame g))) (xaxis (box_frame g))
        = a * (x1 * x1 + x2 * x2 + x3 * x3) + b * (x1 * y1 + x2 * y2 + x3 * y3)"
    by (simp add: v_def p x y zaxis_def algebra_simps)
  have 2: "dot_vectors (subtract_vectors v (point (box_frame g))) (yaxis (box_frame g))
        = a * (x1 * y1 + x2 * y2 + x3 * y3) + b * (y1 * y1 + y2 * y2 + y3 * y3)"
    by (simp add: v_def p x y zaxis_def algebra_simps)
  have 3: "dot_vectors (subtract_vectors v (point (box_frame g))) (zaxis (box_frame g))
        = c * dot_vectors (zaxis (box_frame g)) (zaxis (box_frame g))"
    by (simp add: v_def p x y zaxis_def algebra_simps)
  show ?thesis
    unfolding v_def[symmetric] local_point_def 1 2 3 by (simp add: xx yy xy zz)
qed


lemma Box_points_combinations:
  "Box_points g =
     map (\<lambda>(a, b, c). add_vectors (point (box_frame g))
            (add_vectors (add_vectors (scale_vector (xaxis (box_frame g)) a)
                                      (scale_vector (yaxis (box_frame g)) b))
                         (scale_vector (zaxis (box_frame g)) c)))
       [(- (xsize g / 2), - (ysize g / 2), - (zsize g / 2)),
        (- (xsize g / 2), ysize g / 2, - (zsize g / 2)),
        (xsize g / 2, ysize g / 2, - (zsize g / 2)),
        (xsize g / 2, - (ysize g / 2), - (zsize g / 2)),
        (- (xsize g / 2), - (ysize g / 2), zsize g / 2),
        (xsize g / 2, - (ysize g / 2), zsize g / 2),
        (xsize g / 2, ysize g / 2, zsize g / 2),
        (- (xsize g / 2), ysize g / 2, zsize g / 2)]"
proof -
  obtain p1 p2 p3 where p: "point (box_frame g) = (p1, p2, p3)" by (cases "point (box_frame g)") auto
  obtain x1 x2 x3 where x: "xaxis (box_frame g) = (x1, x2, x3)" by (cases "xaxis (box_frame g)") auto
  obtain y1 y2 y3 where y: "yaxis (box_frame g) = (y1, y2, y3)" by (cases "yaxis (box_frame g)") auto
  obtain z1 z2 z3 where z: "zaxis (box_frame g) = (z1, z2, z3)" by (cases "zaxis (box_frame g)") auto
  show ?thesis
    by (simp add: Box_points_def Let_def p x y z algebra_simps)
qed

lemma Box_points_local:
  assumes "orthonormal (box_frame g)"
  shows "map (local_point g) (Box_points g) =
       [(- (xsize g / 2), - (ysize g / 2), - (zsize g / 2)),
        (- (xsize g / 2), ysize g / 2, - (zsize g / 2)),
        (xsize g / 2, ysize g / 2, - (zsize g / 2)),
        (xsize g / 2, - (ysize g / 2), - (zsize g / 2)),
        (- (xsize g / 2), - (ysize g / 2), zsize g / 2),
        (xsize g / 2, - (ysize g / 2), zsize g / 2),
        (xsize g / 2, ysize g / 2, zsize g / 2),
        (- (xsize g / 2), ysize g / 2, zsize g / 2)]"
  by (subst Box_points_combinations) (simp add: local_point_combination[OF assms])

lemma Box_points_distinct:
  assumes "proper_box g"
  shows "distinct (Box_points g)"
proof -
  have "distinct (map (local_point g) (Box_points g))"
    using assms by (simp add: Box_points_local proper_box_def)
  then show ?thesis by (simp add: distinct_map)
qed

lemma Box_points_nth_local:
  assumes "orthonormal (box_frame g)" "i < 8"
  shows "local_point g (Box_points g ! i) =
       [(- (xsize g / 2), - (ysize g / 2), - (zsize g / 2)),
        (- (xsize g / 2), ysize g / 2, - (zsize g / 2)),
        (xsize g / 2, ysize g / 2, - (zsize g / 2)),
        (xsize g / 2, - (ysize g / 2), - (zsize g / 2)),
        (- (xsize g / 2), - (ysize g / 2), zsize g / 2),
        (xsize g / 2, - (ysize g / 2), zsize g / 2),
        (xsize g / 2, ysize g / 2, zsize g / 2),
        (- (xsize g / 2), ysize g / 2, zsize g / 2)] ! i"
proof -
  have "length (Box_points g) = 8" by (simp add: Box_points_def Let_def)
  with assms(2) have "local_point g (Box_points g ! i) = map (local_point g) (Box_points g) ! i"
    by simp
  then show ?thesis by (simp only: Box_points_local[OF assms(1)])
qed

lemma Box_faces_on_sides:
  assumes "proper_box g"
  shows "face_on_side g \<lparr>vertices = Box_points g, faces = Box_faces\<rparr> (Box_faces ! 0) 2 (-1)"
    "face_on_side g \<lparr>vertices = Box_points g, faces = Box_faces\<rparr> (Box_faces ! 1) 1 (-1)"
    "face_on_side g \<lparr>vertices = Box_points g, faces = Box_faces\<rparr> (Box_faces ! 2) 0 1"
    "face_on_side g \<lparr>vertices = Box_points g, faces = Box_faces\<rparr> (Box_faces ! 3) 1 1"
    "face_on_side g \<lparr>vertices = Box_points g, faces = Box_faces\<rparr> (Box_faces ! 4) 0 (-1)"
    "face_on_side g \<lparr>vertices = Box_points g, faces = Box_faces\<rparr> (Box_faces ! 5) 2 1"
proof -
  have o: "orthonormal (box_frame g)" and pos: "0 < xsize g" "0 < ysize g" "0 < zsize g"
    using assms by (simp_all add: proper_box_def)
  have len: "length (Box_points g) = 8" by (simp add: Box_points_def Let_def)
  note l = Box_points_nth_local[OF o]
  show "face_on_side g \<lparr>vertices = Box_points g, faces = Box_faces\<rparr> (Box_faces ! 0) 2 (-1)"
    "face_on_side g \<lparr>vertices = Box_points g, faces = Box_faces\<rparr> (Box_faces ! 1) 1 (-1)"
    "face_on_side g \<lparr>vertices = Box_points g, faces = Box_faces\<rparr> (Box_faces ! 2) 0 1"
    "face_on_side g \<lparr>vertices = Box_points g, faces = Box_faces\<rparr> (Box_faces ! 3) 1 1"
    "face_on_side g \<lparr>vertices = Box_points g, faces = Box_faces\<rparr> (Box_faces ! 4) 0 (-1)"
    "face_on_side g \<lparr>vertices = Box_points g, faces = Box_faces\<rparr> (Box_faces ! 5) 2 1"
    using pos
    by (simp_all add: face_on_side_def Box_faces_def len is_corner_def coordinate_def size_along_def l)
qed

lemma Box_points_corners:
  assumes "proper_box g"
  shows "list_all (is_corner g) (Box_points g)"
proof -
  have o: "orthonormal (box_frame g)" and pos: "0 < xsize g" "0 < ysize g" "0 < zsize g"
    using assms by (simp_all add: proper_box_def)
  have "list_all (\<lambda>c. \<bar>fst c\<bar> = xsize g / 2 \<and> \<bar>fst (snd c)\<bar> = ysize g / 2 \<and> \<bar>snd (snd c)\<bar> = zsize g / 2)
          (map (local_point g) (Box_points g))"
    using pos by (simp add: Box_points_local[OF o])
  then show ?thesis
    by (simp add: list_all_iff is_corner_def)
qed


section \<open>Collision meshes\<close>

lemma Beam_compute_collision_mesh_value:
  assumes "attr_geometry s = Some g"
  shows "Beam_compute_collision_mesh s
           = Inr (\<lparr>vertices = Box_points g, faces = Box_faces\<rparr>,
                  s\<lparr>attr_collision_mesh := Some \<lparr>vertices = Box_points g, faces = Box_faces\<rparr>\<rparr>)"
  using assms
  by (simp add: Beam_compute_collision_mesh_def Element_geometry_def Box_to_vertices_and_faces_def
      Mesh_from_vertices_and_faces_def Let_def)

lemma Block_compute_collision_mesh_value:
  assumes "attr_geometry t = Some g"
  shows "Block_compute_collision_mesh convex_hull t
           = Inr (\<lparr>vertices = vertices g, faces = convex_hull (vertices g)\<rparr>,
                  t\<lparr>attr_collision_mesh := Some \<lparr>vertices = vertices g, faces = convex_hull (vertices g)\<rparr>\<rparr>)"
  using assms
  by (simp add: Block_compute_collision_mesh_def Element_geometry_def Mesh_to_vertices_and_faces_def
      Mesh_from_vertices_and_faces_def Let_def)

text \<open>
  C8.  On a block object, \<^verbatim>\<open>compute_collision_mesh\<close> returns and caches the mesh whose
  vertices are those of the block's mesh and whose faces are what the kernel's
  \<^verbatim>\<open>convex_hull\<close> returns for them: each face lies in a supporting plane of the vertices,
  and no face of the block's mesh that cuts through its vertices is a face of the
  collision mesh.  On a beam object with a proper box, \<^verbatim>\<open>compute_collision_mesh\<close> returns
  and caches the mesh of the box: its eight distinct corners, and six faces of four
  distinct corners each, one on each of the six sides of the box.
\<close>

theorem collision_mesh_is_hull_or_box:
  "(attr_geometry t = Some g \<and> hull_contract convex_hull (vertices g) \<longrightarrow>
      (\<exists>m. Block_compute_collision_mesh convex_hull t = Inr (m, t\<lparr>attr_collision_mesh := Some m\<rparr>)
         \<and> vertices m = vertices g \<and> faces m = convex_hull (vertices g) \<and> faces m \<noteq> []
         \<and> list_all (supporting_face (vertices g)) (faces m)
         \<and> list_all (\<lambda>f. f \<notin> set (faces m))
              (filter (\<lambda>f. \<not> supporting_face (vertices g) f) (faces g))))
   \<and> (attr_geometry s = Some b \<and> proper_box b \<longrightarrow>
      (\<exists>m. Beam_compute_collision_mesh s = Inr (m, s\<lparr>attr_collision_mesh := Some m\<rparr>)
         \<and> vertices m = Box_points b \<and> length (vertices m) = 8 \<and> distinct (vertices m)
         \<and> list_all (is_corner b) (vertices m)
         \<and> length (faces m) = 6
         \<and> face_on_side b m (faces m ! 0) 2 (-1) \<and> face_on_side b m (faces m ! 1) 1 (-1)
         \<and> face_on_side b m (faces m ! 2) 0 1 \<and> face_on_side b m (faces m ! 3) 1 1
         \<and> face_on_side b m (faces m ! 4) 0 (-1) \<and> face_on_side b m (faces m ! 5) 2 1))"
proof (intro conjI impI)
  assume h: "attr_geometry t = Some g \<and> hull_contract convex_hull (vertices g)"
  then have c: "convex_hull (vertices g) \<noteq> []"
    "list_all (supporting_face (vertices g)) (convex_hull (vertices g))"
    by (simp_all add: hull_contract_def)
  from c(2) have "list_all (\<lambda>f. f \<notin> set (convex_hull (vertices g)))
              (filter (\<lambda>f. \<not> supporting_face (vertices g) f) (faces g))"
    by (auto simp: list_all_iff)
  with h c show "\<exists>m. Block_compute_collision_mesh convex_hull t = Inr (m, t\<lparr>attr_collision_mesh := Some m\<rparr>)
         \<and> vertices m = vertices g \<and> faces m = convex_hull (vertices g) \<and> faces m \<noteq> []
         \<and> list_all (supporting_face (vertices g)) (faces m)
         \<and> list_all (\<lambda>f. f \<notin> set (faces m))
              (filter (\<lambda>f. \<not> supporting_face (vertices g) f) (faces g))"
    by (simp add: Block_compute_collision_mesh_value)
next
  assume h: "attr_geometry s = Some b \<and> proper_box b"
  then have p: "proper_box b" by simp
  show "\<exists>m. Beam_compute_collision_mesh s = Inr (m, s\<lparr>attr_collision_mesh := Some m\<rparr>)
         \<and> vertices m = Box_points b \<and> length (vertices m) = 8 \<and> distinct (vertices m)
         \<and> list_all (is_corner b) (vertices m)
         \<and> length (faces m) = 6
         \<and> face_on_side b m (faces m ! 0) 2 (-1) \<and> face_on_side b m (faces m ! 1) 1 (-1)
         \<and> face_on_side b m (faces m ! 2) 0 1 \<and> face_on_side b m (faces m ! 3) 1 1
         \<and> face_on_side b m (faces m ! 4) 0 (-1) \<and> face_on_side b m (faces m ! 5) 2 1"
    using h Box_faces_on_sides[OF p] Box_points_distinct[OF p] Box_points_corners[OF p]
    by (simp add: Beam_compute_collision_mesh_value) (simp add: Box_points_def Box_faces_def Let_def)
qed

lemma dented_hull_contract: "hull_contract example_hull (vertices dented_mesh)"
  by (simp add: hull_contract_def example_hull_def dented_mesh_def supporting_face_def plane_side_def)

lemma dented_face_not_supporting: "\<not> supporting_face (vertices dented_mesh) [1, 2, 4]"
  by (simp add: dented_mesh_def supporting_face_def plane_side_def)


theorem collision_mesh_is_hull_or_box_witness:
  "(\<forall>t. \<exists>m. Block_compute_collision_mesh example_hull (t\<lparr>attr_geometry := Some dented_mesh\<rparr>)
            = Inr (m, t\<lparr>attr_geometry := Some dented_mesh, attr_collision_mesh := Some m\<rparr>)
        \<and> vertices m = vertices dented_mesh \<and> faces m = example_hull (vertices dented_mesh)
        \<and> faces m \<noteq> [] \<and> list_all (supporting_face (vertices dented_mesh)) (faces m)
        \<and> [1, 2, 4] \<notin> set (faces m))
   \<and> [1, 2, 4] \<in> set (faces dented_mesh)
   \<and> (\<forall>s. \<exists>m. Beam_compute_collision_mesh (s\<lparr>attr_geometry := Some (create_box worldXY 2 1 4)\<rparr>)
            = Inr (m, s\<lparr>attr_geometry := Some (create_box worldXY 2 1 4), attr_collision_mesh := Some m\<rparr>)
        \<and> vertices m = Box_points (create_box worldXY 2 1 4) \<and> distinct (vertices m)
        \<and> length (faces m) = 6
        \<and> face_on_side (create_box worldXY 2 1 4) m (faces m ! 0) 2 (-1)
        \<and> face_on_side (create_box worldXY 2 1 4) m (faces m ! 1) 1 (-1)
        \<and> face_on_side (create_box worldXY 2 1 4) m (faces m ! 2) 0 1
        \<and> face_on_side (create_box worldXY 2 1 4) m (faces m ! 3) 1 1
        \<and> face_on_side (create_box worldXY 2 1 4) m (faces m ! 4) 0 (-1)
        \<and> face_on_side (create_box worldXY 2 1 4) m (faces m ! 5) 2 1)"
proof (intro conjI allI)
  fix t :: block
  have "attr_geometry (t\<lparr>attr_geometry := Some dented_mesh\<rparr>) = Some dented_mesh
        \<and> hull_contract example_hull (vertices dented_mesh)"
    by (simp add: dented_hull_contract)
  with collision_mesh_is_hull_or_box[where t = "t\<lparr>attr_geometry := Some dented_mesh\<rparr>"
      and g = dented_mesh and convex_hull = example_hull]
  obtain m where m: "Block_compute_collision_mesh example_hull (t\<lparr>attr_geometry := Some dented_mesh\<rparr>)
            = Inr (m, t\<lparr>attr_geometry := Some dented_mesh, attr_collision_mesh := Some m\<rparr>)"
    "vertices m = vertices dented_mesh" "faces m = example_hull (vertices dented_mesh)"
    "faces m \<noteq> []" "list_all (supporting_face (vertices dented_mesh)) (faces m)"
    "list_all (\<lambda>f. f \<notin> set (faces m))
       (filter (\<lambda>f. \<not> supporting_face (vertices dented_mesh) f) (faces dented_mesh))"
    by blast
  have "[1, 2, 4] \<in> set (filter (\<lambda>f. \<not> supporting_face (vertices dented_mesh) f) (faces dented_mesh))"
    using dented_face_not_supporting by (simp add: dented_mesh_def)
  with m(6) have "[1, 2, 4] \<notin> set (faces m)"
    by (simp add: list_all_iff del: set_filter)
  with m show "\<exists>m. Block_compute_collision_mesh example_hull (t\<lparr>attr_geometry := Some dented_mesh\<rparr>)
            = Inr (m, t\<lparr>attr_geometry := Some dented_mesh, attr_collision_mesh := Some m\<rparr>)
        \<and> vertices m = vertices dented_mesh \<and> faces m = example_hull (vertices dented_mesh)
        \<and> faces m \<noteq> [] \<and> list_all (supporting_face (vertices dented_mesh)) (faces m)
        \<and> [1, 2, 4] \<notin> set (faces m)"
    by blast
next
  show "[1, 2, 4] \<in> set (faces dented_mesh)"
    by (simp add: dented_mesh_def)
next
  fix s :: beam
  have "attr_geometry (s\<lparr>attr_geometry := Some (create_box worldXY 2 1 4)\<rparr>) = Some (create_box worldXY 2 1 4)
        \<and> proper_box (create_box worldXY 2 1 4)"
    by (simp add: example_beam_box proper_box_def orthonormal_def)
  with collision_mesh_is_hull_or_box[where s = "s\<lparr>attr_geometry := Some (create_box worldXY 2 1 4)\<rparr>"
      and b = "create_box worldXY 2 1 4"]
  show "\<exists>m. Beam_compute_collision_mesh (s\<lparr>attr_geometry := Some (create_box worldXY 2 1 4)\<rparr>)
            = Inr (m, s\<lparr>attr_geometry := Some (create_box worldXY 2 1 4), attr_collision_mesh := Some m\<rparr>)
        \<and> vertices m = Box_points (create_box worldXY 2 1 4) \<and> distinct (vertices m)
        \<and> length (faces m) = 6
        \<and> face_on_side (create_box worldXY 2 1 4) m (faces m ! 0) 2 (-1)
        \<and> face_on_side (create_box worldXY 2 1 4) m (faces m ! 1) 1 (-1)
        \<and> face_on_side (create_box worldXY 2 1 4) m (faces m ! 2) 0 1
        \<and> face_on_side (create_box worldXY 2 1 4) m (faces m ! 3) 1 1
        \<and> face_on_side (create_box worldXY 2 1 4) m (faces m ! 4) 0 (-1)
        \<and> face_on_side (create_box worldXY 2 1 4) m (faces m ! 5) 2 1"
    by (simp del: One_nat_def) blast
qed

end
